theory Spec2Isabelle
  imports Main "HOL-Library.Option_ord"
begin

section \<open>Data model\<close>

text \<open>
  The billing layer keeps its state in PostgreSQL tables (migrations/001_billing_schema.sql).
  A table is a list of rows, a row is a record of the columns the billing code reads or
  writes, a nullable column is an \<open>option\<close>. Timestamps are seconds on the integer line;
  \<open>clock\<close> is what \<open>NOW()\<close> returns during one operation.
  An SQL statement is modelled by its relational meaning. A statement that names a column
  its table does not have is rejected by the server, and \<open>db.query\<close> rethrows the error;
  connection failures and constraint violations are outside the model.
\<close>

type_synonym timestamp = int

record specialist =
  sp_id :: nat
  sp_email :: string
  sp_name :: string
  billing_tier_id :: "string option"
  stripe_customer_id :: "string option"
  stripe_subscription_id :: "string option"
  subscription_status :: "string option"
  subscription_start_date :: "timestamp option"
  trial_ends_at :: "timestamp option"
  cancellation_date :: "timestamp option"
  is_restricted :: bool
  restriction_reason :: "string option"
  restricted_at :: "timestamp option"
  client_count :: int

record client =
  cl_id :: nat
  cl_specialist_id :: nat
  cl_name :: string
  cl_email :: string
  cl_is_active :: bool
  is_archived :: bool
  archived_at :: "timestamp option"
  archived_reason :: "string option"
  last_activity :: "timestamp option"
  marked_for_cleanup :: bool

record billing_tier =
  bt_id :: string
  bt_name :: string
  client_limit :: int

record task_payload =
  pl_reason :: "string option"
  pl_clientCount :: "int option"
  pl_limit :: "int option"
  pl_invoice_id :: "string option"

datatype task_result =
  TaskResult bool string "string option"
| TaskError string

record scheduled_task =
  st_id :: nat
  task_type :: string
  st_specialist_id :: "nat option"
  st_client_id :: "nat option"
  execute_at :: timestamp
  executed_at :: "timestamp option"
  st_status :: string
  payload :: "task_payload option"
  result :: "task_result option"

record billing_event =
  ev_specialist_id :: "nat option"
  ev_type :: string
  ev_stripe_event_id :: string

record invoice =
  inv_stripe_invoice_id :: "string option"
  inv_status :: string
  inv_paid_date :: "timestamp option"

record email =
  email_to :: string
  email_template :: string

record world =
  specialists :: "specialist list"
  clients :: "client list"
  billing_tiers :: "billing_tier list"
  scheduled_tasks :: "scheduled_task list"
  scheduled_tasks_seq :: nat
  billing_events :: "billing_event list"
  invoices :: "invoice list"
  outbox :: "email list"
  clock :: timestamp

datatype js_error =
  Error string | TypeError string | ReferenceError string | StripeError string
| DatabaseError string

section \<open>services/billingService.js\<close>

text \<open>
  Modelled from the spec: \<open>emailService.sendEmail\<close> is required by the billing service but
  is not among the sources. The spec's notification dispatcher is a template-based email
  sender invoked by the billing code; the model records the recipient and the template of
  each message in \<open>outbox\<close>. The rendered subject and template data are not modelled.
\<close>

definition sendEmail :: "email \<Rightarrow> world \<Rightarrow> world" where
  "sendEmail m w = w\<lparr>outbox := outbox w @ [m]\<rparr>"

text \<open>\<open>SELECT * FROM specialists WHERE id = $1\<close>, then \<open>rows[0]\<close>.\<close>

definition find_specialist :: "nat \<Rightarrow> world \<Rightarrow> specialist option" where
  "find_specialist specialistId w = find (\<lambda>s. sp_id s = specialistId) (specialists w)"

text \<open>\<open>LEFT JOIN billing_tiers bt ON s.billing_tier_id = bt.id\<close>: the tier row, if any.\<close>

definition tier_of :: "specialist \<Rightarrow> world \<Rightarrow> billing_tier option" where
  "tier_of s w =
     (case billing_tier_id s of
        None \<Rightarrow> None
      | Some t \<Rightarrow> find (\<lambda>bt. bt_id bt = t) (billing_tiers w))"

text \<open>\<open>SELECT COUNT(*) FROM clients WHERE specialist_id = s.id AND is_active = true\<close>.\<close>

definition active_clients :: "nat \<Rightarrow> world \<Rightarrow> int" where
  "active_clients specialistId w =
     int (length (filter (\<lambda>c. cl_specialist_id c = specialistId \<and> cl_is_active c) (clients w)))"

text \<open>\<open>UPDATE specialists SET ... WHERE ...\<close>: every row that satisfies the condition.\<close>

definition update_specialists ::
  "(specialist \<Rightarrow> bool) \<Rightarrow> (specialist \<Rightarrow> specialist) \<Rightarrow> world \<Rightarrow> world" where
  "update_specialists P f w =
     w\<lparr>specialists := map (\<lambda>s. if P s then f s else s) (specialists w)\<rparr>"

text \<open>
  A tier limit that the join left \<open>NULL\<close> reaches JavaScript as \<open>null\<close>; in \<open>>=\<close> and in
  \<open>*\<close> it converts to the number 0.
\<close>

definition to_number :: "int option \<Rightarrow> int" where
  "to_number v = (case v of None \<Rightarrow> 0 | Some n \<Rightarrow> n)"

definition notifyLimitReached ::
  "nat \<Rightarrow> int \<Rightarrow> int option \<Rightarrow> string option \<Rightarrow> world \<Rightarrow> world \<times> (js_error + unit)" where
  "notifyLimitReached specialistId clientCount lim tierId w =
     (case find_specialist specialistId w of
        None \<Rightarrow> (w, Inl (TypeError ''Cannot read properties of undefined (reading 'email')''))
      | Some s \<Rightarrow>
          (sendEmail \<lparr>email_to = sp_email s, email_template = ''limit-reached''\<rparr> w, Inr ()))"

definition notifyApproachingLimit ::
  "nat \<Rightarrow> int \<Rightarrow> int option \<Rightarrow> world \<Rightarrow> world \<times> (js_error + unit)" where
  "notifyApproachingLimit specialistId clientCount lim w =
     (case find_specialist specialistId w of
        None \<Rightarrow> (w, Inl (TypeError ''Cannot read properties of undefined (reading 'email')''))
      | Some s \<Rightarrow>
          (sendEmail \<lparr>email_to = sp_email s, email_template = ''approaching-limit''\<rparr> w, Inr ()))"

record limit_check =
  restricted :: bool
  reason :: "string option"
  clientCount :: int
  limit :: "int option"

text \<open>
  The columns of \<open>billing_tiers\<close>, as the \<open>CREATE TABLE\<close> of the migration defines them,
  and the check the server makes of the columns a \<open>SELECT\<close> list takes from the table
  under the alias \<open>bt\<close>: the first column the table does not have is reported.
\<close>

definition billing_tiers_columns :: "string list" where
  "billing_tiers_columns =
     [''id'', ''name'', ''price'', ''stripe_price_id'', ''client_limit'', ''features'',
      ''is_active'', ''created_at'', ''updated_at'']"

definition select_columns :: "string list \<Rightarrow> string list \<Rightarrow> js_error + unit" where
  "select_columns table_columns wanted =
     (case filter (\<lambda>c. c \<notin> set table_columns) wanted of
        [] \<Rightarrow> Inr ()
      | c # _ \<Rightarrow> Inl (DatabaseError (''column bt.'' @ c @ '' does not exist'')))"

text \<open>
  \<open>BillingService.checkClientLimits\<close>. Its query selects \<open>bt.tier_id\<close> and
  \<open>bt.client_limit\<close>. \<open>billing_tiers\<close> has no column \<open>tier_id\<close>, so the server rejects the
  query, \<open>db.query\<close> throws, and the \<open>catch\<close> of the method logs the error and throws it
  again: nothing is written and nothing is returned. What follows the query is kept as it is
  written; it would run on the row of a query that succeeded. There, the test
  \<open>client_count >= client_limit * 0.8\<close> compares an integer count with four fifths of an
  integer limit; it is written \<open>5 * count \<ge> 4 * limit\<close>.
\<close>

definition checkClientLimits :: "nat \<Rightarrow> world \<Rightarrow> world \<times> (js_error + limit_check)" where
  "checkClientLimits specialistId w =
     (case select_columns billing_tiers_columns [''tier_id'', ''client_limit''] of
        Inl e \<Rightarrow> (w, Inl e)
      | Inr _ \<Rightarrow>
     (case find_specialist specialistId w of
        None \<Rightarrow> (w, Inl (Error ''Specialist not found''))
      | Some s \<Rightarrow>
          (let cnt = active_clients specialistId w;
               lim = map_option client_limit (tier_of s w);
               tier_id = map_option bt_id (tier_of s w)
           in if lim \<noteq> Some (- 1) \<and> cnt \<ge> to_number lim then
                (case notifyLimitReached specialistId cnt lim tier_id
                        (update_specialists (\<lambda>r. sp_id r = specialistId)
                           (\<lambda>r. r\<lparr>is_restricted := True,
                                  restriction_reason := Some ''client_limit_exceeded'',
                                  restricted_at := Some (clock w)\<rparr>) w) of
                   (w', Inl e) \<Rightarrow> (w', Inl e)
                 | (w', Inr _) \<Rightarrow>
                     (w', Inr \<lparr>restricted = True, reason = Some ''client_limit_exceeded'',
                               clientCount = cnt, limit = lim\<rparr>))
              else if lim \<noteq> Some (- 1) \<and> 5 * cnt \<ge> 4 * to_number lim then
                (case notifyApproachingLimit specialistId cnt lim w of
                   (w', Inl e) \<Rightarrow> (w', Inl e)
                 | (w', Inr _) \<Rightarrow>
                     (w', Inr \<lparr>restricted = False, reason = None,
                               clientCount = cnt, limit = lim\<rparr>))
              else
                (w, Inr \<lparr>restricted = False, reason = None, clientCount = cnt, limit = lim\<rparr>))))"

text \<open>\<open>BillingService.clearRestrictions\<close>.\<close>

definition clearRestrictions :: "nat option \<Rightarrow> world \<Rightarrow> world" where
  "clearRestrictions specialistId w =
     update_specialists (\<lambda>s. Some (sp_id s) = specialistId)
       (\<lambda>s. s\<lparr>is_restricted := False, restriction_reason := None, restricted_at := None\<rparr>) w"

definition notifyPendingArchive ::
  "nat \<Rightarrow> client list \<Rightarrow> world \<Rightarrow> world \<times> (js_error + unit)" where
  "notifyPendingArchive specialistId cs w =
     (case find_specialist specialistId w of
        None \<Rightarrow> (w, Inl (TypeError ''Cannot read properties of undefined (reading 'email')''))
      | Some s \<Rightarrow>
          (sendEmail \<lparr>email_to = sp_email s, email_template = ''pending-archive''\<rparr> w, Inr ()))"

text \<open>
  The tier table of the service. The price identifiers come from the process environment.
  Only the four own keys of \<open>BILLING_TIERS\<close> are looked up; property names that a
  JavaScript object inherits are not tier ids.
\<close>

record environment =
  STRIPE_PRICE_STARTER :: "string option"
  STRIPE_PRICE_PROFESSIONAL :: "string option"
  STRIPE_PRICE_SCALE :: "string option"
  STRIPE_PRICE_ENTERPRISE :: "string option"
  STRIPE_WEBHOOK_SECRET :: "string option"

record tier_config =
  tc_id :: string
  tc_name :: string
  tc_price :: nat
  tc_priceId :: "string option"
  tc_clientLimit :: int
  tc_features :: "string list"

definition BILLING_TIERS :: "environment \<Rightarrow> string \<Rightarrow> tier_config option" where
  "BILLING_TIERS env k =
     (if k = ''starter'' then
        Some \<lparr>tc_id = ''starter'', tc_name = ''Starter'', tc_price = 29,
              tc_priceId = STRIPE_PRICE_STARTER env, tc_clientLimit = 10,
              tc_features = [''Core features'', ''Email support'', ''Basic analytics'']\<rparr>
      else if k = ''professional'' then
        Some \<lparr>tc_id = ''professional'', tc_name = ''Professional'', tc_price = 79,
              tc_priceId = STRIPE_PRICE_PROFESSIONAL env, tc_clientLimit = 50,
              tc_features = [''All features'', ''Custom branding'', ''Priority support'',
                             ''Advanced analytics'']\<rparr>
      else if k = ''scale'' then
        Some \<lparr>tc_id = ''scale'', tc_name = ''Scale'', tc_price = 149,
              tc_priceId = STRIPE_PRICE_SCALE env, tc_clientLimit = 150,
              tc_features = [''Everything in Professional'', ''API access'',
                             ''White label options'', ''Custom integrations'']\<rparr>
      else if k = ''enterprise'' then
        Some \<lparr>tc_id = ''enterprise'', tc_name = ''Enterprise'', tc_price = 299,
              tc_priceId = STRIPE_PRICE_ENTERPRISE env, tc_clientLimit = - 1,
              tc_features = [''Everything in Scale'', ''Unlimited clients'',
                             ''Multi-specialist accounts'', ''Dedicated support'']\<rparr>
      else None)"

text \<open>
  The payment processor is reached through the \<open>stripe\<close> client library, which is not part
  of the sources: each call the billing code makes is a field of \<open>stripe_api\<close>, a function
  from the request to the processor's answer or the error it throws.
\<close>

record stripe_subscription =
  sub_id :: string
  sub_status :: string
  sub_trial_end :: "timestamp option"
  sub_metadata_specialistId :: "nat option"
  sub_metadata_tierId :: "string option"

record subscription_params =
  prm_customer :: string
  prm_price :: "string option"
  prm_metadata_specialistId :: nat
  prm_metadata_tierId :: string
  trial_period_days :: nat
  payment_behavior :: string

record stripe_api =
  customers_create :: "string \<Rightarrow> string \<Rightarrow> nat \<Rightarrow> js_error + string"
  paymentMethods_attach :: "string \<Rightarrow> string \<Rightarrow> js_error + unit"
  customers_update :: "string \<Rightarrow> string \<Rightarrow> js_error + unit"
  subscriptions_create :: "subscription_params \<Rightarrow> js_error + stripe_subscription"
  invoices_pay :: "string option \<Rightarrow> js_error + string"

text \<open>JavaScript truthiness of a string that may be missing.\<close>

definition truthy :: "string option \<Rightarrow> bool" where
  "truthy v = (case v of None \<Rightarrow> False | Some x \<Rightarrow> x \<noteq> [])"

text \<open>\<open>BillingService.createSubscription\<close>.\<close>

definition createSubscription ::
  "stripe_api \<Rightarrow> environment \<Rightarrow> nat \<Rightarrow> string \<Rightarrow> string \<Rightarrow> world \<Rightarrow>
     world \<times> (js_error + stripe_subscription \<times> tier_config)" where
  "createSubscription api env specialistId tierId paymentMethodId w =
     (case find_specialist specialistId w of
        None \<Rightarrow> (w, Inl (Error ''Specialist not found''))
      | Some s \<Rightarrow>
     (case BILLING_TIERS env tierId of
        None \<Rightarrow> (w, Inl (Error ''Invalid tier''))
      | Some tier \<Rightarrow>
     (case (if truthy (stripe_customer_id s) then Inr (the (stripe_customer_id s), w)
            else (case customers_create api (sp_email s) (sp_name s) specialistId of
                    Inl e \<Rightarrow> Inl e
                  | Inr c \<Rightarrow>
                      Inr (c, update_specialists (\<lambda>r. sp_id r = specialistId)
                                (\<lambda>r. r\<lparr>stripe_customer_id := Some c\<rparr>) w))) of
        Inl e \<Rightarrow> (w, Inl e)
      | Inr (customerId, w1) \<Rightarrow>
     (case paymentMethods_attach api paymentMethodId customerId of
        Inl e \<Rightarrow> (w1, Inl e)
      | Inr _ \<Rightarrow>
     (case customers_update api customerId paymentMethodId of
        Inl e \<Rightarrow> (w1, Inl e)
      | Inr _ \<Rightarrow>
     (case subscriptions_create api
             \<lparr>prm_customer = customerId, prm_price = tc_priceId tier,
              prm_metadata_specialistId = specialistId, prm_metadata_tierId = tierId,
              trial_period_days = 14, payment_behavior = ''default_incomplete''\<rparr> of
        Inl e \<Rightarrow> (w1, Inl e)
      | Inr subscription \<Rightarrow>
          (clearRestrictions (Some specialistId)
             (update_specialists (\<lambda>r. sp_id r = specialistId)
                (\<lambda>r. r\<lparr>billing_tier_id := Some tierId,
                       stripe_subscription_id := Some (sub_id subscription),
                       subscription_status := Some (sub_status subscription),
                       subscription_start_date := Some (clock w),
                       is_restricted := False,
                       restriction_reason := None\<rparr>) w1),
           Inr (subscription, tier))))))))"

text \<open>
  \<open>BillingService.smartArchiveClients\<close>. \<open>ORDER BY last_activity ASC NULLS FIRST\<close> is the
  order of \<open>timestamp option\<close> (\<open>None\<close> below every \<open>Some\<close>); rows with the same
  \<open>last_activity\<close> keep their table order. The \<open>catch\<close> of the method logs and drops an
  error, so the method returns nothing but the state.
\<close>

definition days :: "int \<Rightarrow> int" where
  "days n = n * 86400"

definition archive_candidates :: "nat \<Rightarrow> world \<Rightarrow> client list" where
  "archive_candidates specialistId w =
     sort_key last_activity
       (filter (\<lambda>c. cl_specialist_id c = specialistId \<and> cl_is_active c \<and>
                     (case last_activity c of
                        None \<Rightarrow> True
                      | Some t \<Rightarrow> t < clock w - days 90))
          (clients w))"

definition schedule_archive :: "nat \<Rightarrow> nat \<Rightarrow> world \<Rightarrow> world" where
  "schedule_archive specialistId clientId w =
     w\<lparr>scheduled_tasks := scheduled_tasks w @
          [\<lparr>st_id = scheduled_tasks_seq w, task_type = ''archive_client'',
            st_specialist_id = Some specialistId, st_client_id = Some clientId,
            execute_at = clock w + days 7, executed_at = None, st_status = ''pending'',
            payload = Some \<lparr>pl_reason = Some ''auto_archived_billing_limit'',
                            pl_clientCount = None, pl_limit = None, pl_invoice_id = None\<rparr>,
            result = None\<rparr>],
       scheduled_tasks_seq := Suc (scheduled_tasks_seq w)\<rparr>"

definition smartArchiveClients :: "nat \<Rightarrow> world \<Rightarrow> world" where
  "smartArchiveClients specialistId w =
     (case find (\<lambda>s. sp_id s = specialistId \<and> is_restricted s) (specialists w) of
        None \<Rightarrow> w
      | Some s \<Rightarrow>
          (let lim = map_option client_limit (tier_of s w);
               active = active_clients specialistId w
           in if lim \<noteq> Some (- 1) \<and> active > to_number lim then
                (let candidates =
                       take (nat (active - to_number lim)) (archive_candidates specialistId w)
                 in if length candidates > 0 then
                      (case notifyPendingArchive specialistId candidates w of
                         (w1, Inl e) \<Rightarrow> w1
                       | (w1, Inr _) \<Rightarrow>
                           fold (\<lambda>c. schedule_archive specialistId (cl_id c)) candidates w1)
                    else w)
              else w))"

section \<open>The client-count trigger of migrations/001_billing_schema.sql\<close>

text \<open>
  \<open>update_client_count\<close> is the row-level \<open>AFTER INSERT OR UPDATE\<close> trigger on \<open>clients\<close>.
  \<open>is_active\<close> defaults to true and every statement of the sources writes true or false
  to it, so it is a two-valued boolean here.
\<close>

datatype trigger_event = TG_INSERT client | TG_UPDATE client client

definition recount :: "nat \<Rightarrow> world \<Rightarrow> world" where
  "recount specialistId w =
     update_specialists (\<lambda>s. sp_id s = specialistId)
       (\<lambda>s. s\<lparr>client_count := active_clients specialistId w\<rparr>) w"

fun update_client_count :: "trigger_event \<Rightarrow> world \<Rightarrow> world" where
  "update_client_count (TG_INSERT new) w = recount (cl_specialist_id new) w"
| "update_client_count (TG_UPDATE old new) w =
     (if cl_is_active new \<noteq> cl_is_active old then recount (cl_specialist_id new) w else w)"

text \<open>
  \<open>INSERT INTO clients\<close> of one row, and \<open>UPDATE clients SET ... WHERE ... RETURNING\<close>.
  The rows are written first; the trigger then fires once for each written row and sees
  the table as the statement left it.
\<close>

definition insert_client :: "client \<Rightarrow> world \<Rightarrow> world" where
  "insert_client c w = update_client_count (TG_INSERT c) (w\<lparr>clients := clients w @ [c]\<rparr>)"

definition update_clients ::
  "(client \<Rightarrow> bool) \<Rightarrow> (client \<Rightarrow> client) \<Rightarrow> world \<Rightarrow> world \<times> client list" where
  "update_clients P f w =
     (let olds = filter P (clients w);
          w' = w\<lparr>clients := map (\<lambda>c. if P c then f c else c) (clients w)\<rparr>
      in (fold (\<lambda>old. update_client_count (TG_UPDATE old (f old))) olds w', map f olds))"

text \<open>
  The \<open>SET\<close> list shared by \<open>ScheduledTasksRunner.archiveClient\<close> and the
  \<open>POST /archive-clients\<close> route.
\<close>

definition archive_row :: "string option \<Rightarrow> timestamp \<Rightarrow> client \<Rightarrow> client" where
  "archive_row rsn t c =
     c\<lparr>cl_is_active := False, is_archived := True, archived_at := Some t,
       archived_reason := rsn\<rparr>"

section \<open>services/scheduledTasks.js\<close>

definition message :: "js_error \<Rightarrow> string" where
  "message e =
     (case e of
        Error m \<Rightarrow> m | TypeError m \<Rightarrow> m | ReferenceError m \<Rightarrow> m | StripeError m \<Rightarrow> m
      | DatabaseError m \<Rightarrow> m)"

text \<open>\<open>a || b\<close> on a string that may be missing: the empty string is falsy.\<close>

definition or_default :: "string option \<Rightarrow> string \<Rightarrow> string" where
  "or_default v d = (case v of None \<Rightarrow> d | Some x \<Rightarrow> if x = [] then d else x)"

definition archiveClient :: "scheduled_task \<Rightarrow> world \<Rightarrow> world \<times> (js_error + task_result)" where
  "archiveClient task w =
     (let rsn = or_default (case payload task of None \<Rightarrow> None | Some p \<Rightarrow> pl_reason p)
                  ''auto_archived_billing_limit'';
          (w1, rows) =
            update_clients
              (\<lambda>c. Some (cl_id c) = st_client_id task \<and>
                    Some (cl_specialist_id c) = st_specialist_id task)
              (archive_row (Some rsn) (clock w)) w
      in case rows of
           [] \<Rightarrow> (w1, Inr (TaskResult False ''Client not found or already archived'' None))
         | r # _ \<Rightarrow>
             (case st_specialist_id task of
                None \<Rightarrow> (w1, Inl (Error ''Specialist not found''))
              | Some sid \<Rightarrow>
                  (case checkClientLimits sid w1 of
                     (w2, Inl e) \<Rightarrow> (w2, Inl e)
                   | (w2, Inr _) \<Rightarrow>
                       (w2, Inr (TaskResult True (''Archived client: '' @ cl_name r) None)))))"

definition sendLimitWarning :: "scheduled_task \<Rightarrow> world \<Rightarrow> world \<times> (js_error + task_result)" where
  "sendLimitWarning task w =
     (case st_specialist_id task of
        None \<Rightarrow> (w, Inr (TaskResult False ''Specialist not found'' None))
      | Some sid \<Rightarrow>
          (case find_specialist sid w of
             None \<Rightarrow> (w, Inr (TaskResult False ''Specialist not found'' None))
           | Some s \<Rightarrow>
               (case payload task of
                  None \<Rightarrow>
                    (w, Inl (TypeError ''Cannot read properties of null (reading 'clientCount')''))
                | Some p \<Rightarrow>
                    (case notifyApproachingLimit sid (to_number (pl_clientCount p)) (pl_limit p) w of
                       (w1, Inl e) \<Rightarrow> (w1, Inl e)
                     | (w1, Inr _) \<Rightarrow> (w1, Inr (TaskResult True ''Warning email sent'' None))))))"

definition retryPayment ::
  "stripe_api \<Rightarrow> scheduled_task \<Rightarrow> world \<Rightarrow> world \<times> (js_error + task_result)" where
  "retryPayment api task w =
     (if \<not> truthy (case st_specialist_id task of
                      None \<Rightarrow> None
                    | Some sid \<Rightarrow>
                        (case find_specialist sid w of
                           None \<Rightarrow> None
                         | Some s \<Rightarrow> stripe_subscription_id s))
      then (w, Inr (TaskResult False ''No subscription found'' None))
      else (case payload task of
              None \<Rightarrow>
                (w, Inr (TaskResult False
                          (''Payment retry failed: '' @
                           ''Cannot read properties of null (reading 'invoice_id')'') None))
            | Some p \<Rightarrow>
                (case invoices_pay api (pl_invoice_id p) of
                   Inl e \<Rightarrow>
                     (w, Inr (TaskResult False (''Payment retry failed: '' @ message e) None))
                 | Inr paid \<Rightarrow>
                     (w, Inr (TaskResult True ''Payment retry successful'' (Some paid))))))"

text \<open>\<open>UPDATE scheduled_tasks SET ... WHERE id = $n\<close>.\<close>

definition update_task :: "nat \<Rightarrow> (scheduled_task \<Rightarrow> scheduled_task) \<Rightarrow> world \<Rightarrow> world" where
  "update_task i f w =
     w\<lparr>scheduled_tasks := map (\<lambda>t. if st_id t = i then f t else t) (scheduled_tasks w)\<rparr>"

text \<open>
  The \<open>switch\<close> of \<open>executeTask\<close>. The runner class defines neither \<open>downgradePlan\<close> nor
  \<open>cancelSubscription\<close>, so calling them throws a \<open>TypeError\<close>; an unknown task type keeps
  the initial result.
\<close>

definition run_task ::
  "stripe_api \<Rightarrow> scheduled_task \<Rightarrow> world \<Rightarrow> world \<times> (js_error + task_result)" where
  "run_task api task w =
     (if task_type task = ''archive_client'' then archiveClient task w
      else if task_type task = ''send_limit_warning'' then sendLimitWarning task w
      else if task_type task = ''retry_payment'' then retryPayment api task w
      else if task_type task = ''downgrade_plan'' then
        (w, Inl (TypeError ''this.downgradePlan is not a function''))
      else if task_type task = ''cancel_subscription'' then
        (w, Inl (TypeError ''this.cancelSubscription is not a function''))
      else (w, Inr (TaskResult False ''Unknown task type'' None)))"

definition mark_processing :: "scheduled_task \<Rightarrow> world \<Rightarrow> world" where
  "mark_processing task w = update_task (st_id task) (\<lambda>t. t\<lparr>st_status := ''processing''\<rparr>) w"

definition mark_finished :: "scheduled_task \<Rightarrow> string \<Rightarrow> task_result \<Rightarrow> world \<Rightarrow> world" where
  "mark_finished task s r w =
     update_task (st_id task)
       (\<lambda>t. t\<lparr>st_status := s, executed_at := Some (clock w), result := Some r\<rparr>) w"

definition executeTask :: "stripe_api \<Rightarrow> scheduled_task \<Rightarrow> world \<Rightarrow> world" where
  "executeTask api task w =
     (case run_task api task (mark_processing task w) of
        (w', Inr r) \<Rightarrow> mark_finished task ''completed'' r w'
      | (w', Inl e) \<Rightarrow> mark_finished task ''failed'' (TaskError (message e)) w')"

text \<open>
  The batch query of \<open>runPendingTasks\<close>: pending tasks that are due, by \<open>execute_at\<close>, ten at
  most. Rows with the same \<open>execute_at\<close> keep their table order. \<open>executeTask\<close> catches
  whatever the action of a task throws, a failing query of the action included, and its own
  statements on \<open>scheduled_tasks\<close> name columns the table has, so the loop over the batch
  runs to its end and the outer \<open>catch\<close> of \<open>runPendingTasks\<close> has nothing to catch.
\<close>

definition due_tasks :: "world \<Rightarrow> scheduled_task list" where
  "due_tasks w =
     take 10 (sort_key execute_at
       (filter (\<lambda>t. st_status t = ''pending'' \<and> execute_at t \<le> clock w) (scheduled_tasks w)))"

definition runPendingTasks :: "stripe_api \<Rightarrow> world \<Rightarrow> world" where
  "runPendingTasks api w = fold (executeTask api) (due_tasks w) w"

section \<open>middleware/billingRestrictions.js\<close>

datatype json =
  JNull | JBool bool | JNum int | JStr string | JArr "json list" | JObj "(string \<times> json) list"

text \<open>
  What a middleware or handler does with a request: \<open>Next\<close> hands it to the next handler,
  \<open>Json\<close> and \<open>Send\<close> answer it with a status code, \<open>Rejected\<close> is an error that escapes
  the handler, so that no answer is sent.
\<close>

datatype response = Next | Json nat json | Send nat string | Rejected js_error

record request =
  req_method :: string
  req_path :: string
  req_user_id :: nat

fun strip_prefix :: "string \<Rightarrow> string \<Rightarrow> string option" where
  "strip_prefix [] ys = Some ys"
| "strip_prefix (x # xs) [] = None"
| "strip_prefix (x # xs) (y # ys) = (if x = y then strip_prefix xs ys else None)"

fun includes_str :: "string \<Rightarrow> string \<Rightarrow> bool" where
  "includes_str [] needle = (needle = [])"
| "includes_str (c # cs) needle =
     (strip_prefix needle (c # cs) \<noteq> None \<or> includes_str cs needle)"

definition is_digit :: "char \<Rightarrow> bool" where
  "is_digit c = (c \<in> set ''0123456789'')"

text \<open>The regular expression \<^verbatim>\<open>/^\/api\/clients\/\d+\/activate$/\<close>.\<close>

definition activate_pattern :: "string \<Rightarrow> bool" where
  "activate_pattern p =
     (case strip_prefix ''/api/clients/'' p of
        None \<Rightarrow> False
      | Some rest \<Rightarrow> takeWhile is_digit rest \<noteq> [] \<and> dropWhile is_digit rest = ''/activate'')"

definition restrictedEndpoints :: "request \<Rightarrow> bool" where
  "restrictedEndpoints req =
     ((req_method req = ''POST'' \<and> req_path req = ''/api/clients'') \<or>
      (req_method req = ''PUT'' \<and> activate_pattern (req_path req)) \<or>
      (req_method req = ''POST'' \<and> req_path req = ''/api/clients/import'') \<or>
      (req_method req = ''POST'' \<and> req_path req = ''/api/clients/bulk''))"

definition json_string :: "string option \<Rightarrow> json" where
  "json_string v = (case v of None \<Rightarrow> JNull | Some x \<Rightarrow> JStr x)"

definition json_number :: "int option \<Rightarrow> json" where
  "json_number v = (case v of None \<Rightarrow> JNull | Some x \<Rightarrow> JNum x)"

text \<open>
  \<open>enforceRestrictions\<close> reads the stored restriction flag and counter; it writes nothing
  to the database.
\<close>

definition enforceRestrictions :: "request \<Rightarrow> world \<Rightarrow> response" where
  "enforceRestrictions req w =
     (case find_specialist (req_user_id req) w of
        None \<Rightarrow> Json 404 (JObj [(''error'', JStr ''Specialist not found'')])
      | Some s \<Rightarrow>
          if \<not> is_restricted s then Next
          else if restrictedEndpoints req then
            Json 403 (JObj
              [(''error'', JStr ''Account restricted''),
               (''reason'', json_string (restriction_reason s)),
               (''message'', JStr ''Upgrade your plan to add more clients''),
               (''current_plan'', json_string (map_option bt_name (tier_of s w))),
               (''current_clients'', JNum (client_count s)),
               (''client_limit'', json_number (map_option client_limit (tier_of s w))),
               (''upgrade_url'', JStr ''/billing/upgrade''),
               (''actions'', JObj
                  [(''upgrade'', JObj
                      [(''url'', JStr ''/api/billing/upgrade''), (''method'', JStr ''POST''),
                       (''description'', JStr ''Upgrade to a higher tier'')]),
                   (''archive_clients'', JObj
                      [(''url'', JStr ''/api/clients/archive''), (''method'', JStr ''POST''),
                       (''description'',
                        JStr ''Archive inactive clients to free up space'')])])])
          else Next)"

fun string_of_nat :: "nat \<Rightarrow> string" where
  "string_of_nat n =
     (if n < 10 then [char_of (48 + n)]
      else string_of_nat (n div 10) @ [char_of (48 + n mod 10)])"

declare string_of_nat.simps [simp del]

definition string_of_number :: "int option \<Rightarrow> string" where
  "string_of_number v =
     (case v of
        None \<Rightarrow> ''null''
      | Some n \<Rightarrow> if n < 0 then ''-'' @ string_of_nat (nat (- n)) else string_of_nat (nat n))"

text \<open>The middleware \<open>checkClientLimits\<close> of the same module, in front of the client routes.\<close>

definition checkClientLimits_middleware :: "request \<Rightarrow> world \<Rightarrow> world \<times> response" where
  "checkClientLimits_middleware req w =
     (if req_method req = ''POST'' \<or>
         (req_method req = ''PUT'' \<and> includes_str (req_path req) ''activate'') then
        (case checkClientLimits (req_user_id req) w of
           (w', Inl e) \<Rightarrow> (w', Json 500 (JObj [(''error'', JStr ''Internal server error'')]))
         | (w', Inr limitCheck) \<Rightarrow>
             if restricted limitCheck then
               (w', Json 403 (JObj
                  [(''error'', JStr ''Client limit exceeded''),
                   (''message'',
                    JStr (''You have reached your limit of '' @
                          string_of_number (limit limitCheck) @ '' clients'')),
                   (''current_clients'', JNum (clientCount limitCheck)),
                   (''limit'', json_number (limit limitCheck)),
                   (''upgrade_url'', JStr ''/billing/upgrade'')]))
             else (w', Next))
      else (w, Next))"

text \<open>
  The webhook events the handler distinguishes. A verified event of one of the five handled
  types carries a subscription or an invoice of the processor; any other type reaches the
  \<open>default\<close> branch of the \<open>switch\<close>.
\<close>

record stripe_invoice =
  invoice_id :: string
  invoice_customer :: "string option"
  invoice_paid_at :: "timestamp option"
  invoice_metadata_specialistId :: "nat option"

datatype event_data =
  SubscriptionCreated stripe_subscription
| SubscriptionUpdated stripe_subscription
| SubscriptionDeleted stripe_subscription
| PaymentSucceeded stripe_invoice
| PaymentFailed stripe_invoice
| OtherEvent string "nat option"

record stripe_event =
  event_id :: string
  event_data :: event_data

fun event_type :: "event_data \<Rightarrow> string" where
  "event_type (SubscriptionCreated _) = ''customer.subscription.created''"
| "event_type (SubscriptionUpdated _) = ''customer.subscription.updated''"
| "event_type (SubscriptionDeleted _) = ''customer.subscription.deleted''"
| "event_type (PaymentSucceeded _) = ''invoice.payment_succeeded''"
| "event_type (PaymentFailed _) = ''invoice.payment_failed''"
| "event_type (OtherEvent t _) = t"

fun event_specialistId :: "event_data \<Rightarrow> nat option" where
  "event_specialistId (SubscriptionCreated s) = sub_metadata_specialistId s"
| "event_specialistId (SubscriptionUpdated s) = sub_metadata_specialistId s"
| "event_specialistId (SubscriptionDeleted s) = sub_metadata_specialistId s"
| "event_specialistId (PaymentSucceeded i) = invoice_metadata_specialistId i"
| "event_specialistId (PaymentFailed i) = invoice_metadata_specialistId i"
| "event_specialistId (OtherEvent _ m) = m"

definition handleSubscriptionCreated ::
  "stripe_subscription \<Rightarrow> world \<Rightarrow> world \<times> (js_error + unit)" where
  "handleSubscriptionCreated subscription w =
     (clearRestrictions (sub_metadata_specialistId subscription)
        (update_specialists (\<lambda>s. stripe_subscription_id s = Some (sub_id subscription))
           (\<lambda>s. s\<lparr>subscription_status := Some (sub_status subscription),
                  is_restricted := False,
                  restriction_reason := None,
                  trial_ends_at := sub_trial_end subscription\<rparr>) w),
      Inr ())"

definition handleSubscriptionUpdated ::
  "stripe_subscription \<Rightarrow> world \<Rightarrow> world \<times> (js_error + unit)" where
  "handleSubscriptionUpdated subscription w =
     (let w1 = update_specialists (\<lambda>s. stripe_subscription_id s = Some (sub_id subscription))
                 (\<lambda>s. s\<lparr>billing_tier_id := sub_metadata_tierId subscription,
                        subscription_status := Some (sub_status subscription)\<rparr>) w
      in case sub_metadata_specialistId subscription of
           None \<Rightarrow> (w1, Inl (Error ''Specialist not found''))
         | Some sid \<Rightarrow>
             (case checkClientLimits sid w1 of
                (w2, Inl e) \<Rightarrow> (w2, Inl e)
              | (w2, Inr _) \<Rightarrow> (w2, Inr ())))"

text \<open>
  \<open>handleSubscriptionDeleted\<close> and \<open>handlePaymentFailed\<close> end with calls of
  \<open>billingService.sendRetentionEmail\<close> and \<open>billingService.sendPaymentFailedEmail\<close>. The
  service class defines neither method, so each call throws a \<open>TypeError\<close> after the
  \<open>UPDATE\<close> has been made.
\<close>

definition handleSubscriptionDeleted ::
  "stripe_subscription \<Rightarrow> world \<Rightarrow> world \<times> (js_error + unit)" where
  "handleSubscriptionDeleted subscription w =
     (update_specialists (\<lambda>s. stripe_subscription_id s = Some (sub_id subscription))
        (\<lambda>s. s\<lparr>subscription_status := Some ''canceled'',
               is_restricted := True,
               restriction_reason := Some ''subscription_canceled'',
               cancellation_date := Some (clock w)\<rparr>) w,
      Inl (TypeError ''billingService.sendRetentionEmail is not a function''))"

definition handlePaymentSucceeded ::
  "stripe_invoice \<Rightarrow> world \<Rightarrow> world \<times> (js_error + unit)" where
  "handlePaymentSucceeded i w =
     (w\<lparr>invoices :=
          map (\<lambda>r. if inv_stripe_invoice_id r = Some (invoice_id i)
                   then r\<lparr>inv_status := ''paid'', inv_paid_date := invoice_paid_at i\<rparr>
                   else r) (invoices w)\<rparr>,
      Inr ())"

definition handlePaymentFailed ::
  "stripe_invoice \<Rightarrow> world \<Rightarrow> world \<times> (js_error + unit)" where
  "handlePaymentFailed i w =
     (update_specialists
        (\<lambda>s. invoice_customer i \<noteq> None \<and> stripe_customer_id s = invoice_customer i)
        (\<lambda>s. s\<lparr>is_restricted := True,
               restriction_reason := Some ''payment_failed'',
               restricted_at := Some (clock w)\<rparr>) w,
      Inl (TypeError ''billingService.sendPaymentFailedEmail is not a function''))"

fun dispatch_event :: "event_data \<Rightarrow> world \<Rightarrow> world \<times> (js_error + unit)" where
  "dispatch_event (SubscriptionCreated s) w = handleSubscriptionCreated s w"
| "dispatch_event (SubscriptionUpdated s) w = handleSubscriptionUpdated s w"
| "dispatch_event (SubscriptionDeleted s) w = handleSubscriptionDeleted s w"
| "dispatch_event (PaymentSucceeded i) w = handlePaymentSucceeded i w"
| "dispatch_event (PaymentFailed i) w = handlePaymentFailed i w"
| "dispatch_event (OtherEvent _ _) w = (w, Inr ())"

text \<open>
  \<open>handleStripeWebhook\<close> reads two names it does not define, \<open>stripe\<close> and
  \<open>req.rawBody\<close>. \<open>handleStripeWebhook_in\<close> is the body of the handler, with what its
  scope binds \<open>stripe\<close> to as the first argument: \<open>None\<close> when the scope has no such
  binding, so that reading the name throws a \<open>ReferenceError\<close> inside the \<open>try\<close>, and
  \<open>Some constructEvent\<close> for a client whose \<open>webhooks.constructEvent\<close> takes the raw
  body, the signature header and the shared secret and returns the verified event or the
  error it throws. \<open>rawBody\<close> is \<open>None\<close> when nothing has set \<open>req.rawBody\<close>; the raw-body
  parser that server.js and the billing router put in front of the handler sets
  \<open>req.body\<close>.

  middleware/billingRestrictions.js requires the database and the billing service and
  nothing else, so the handler it exports, \<open>handleStripeWebhook\<close>, runs with \<open>stripe\<close>
  unbound.
\<close>

record webhook_request =
  rawBody :: "string option"
  stripe_signature :: "string option"

type_synonym verifier =
  "string option \<Rightarrow> string option \<Rightarrow> string option \<Rightarrow> js_error + stripe_event"

definition handleStripeWebhook_in ::
  "verifier option \<Rightarrow> environment \<Rightarrow> webhook_request \<Rightarrow> world \<Rightarrow> world \<times> response" where
  "handleStripeWebhook_in stripe env req w =
     (case (case stripe of
              None \<Rightarrow> Inl (ReferenceError ''stripe is not defined'')
            | Some constructEvent \<Rightarrow>
                constructEvent (rawBody req) (stripe_signature req)
                  (STRIPE_WEBHOOK_SECRET env)) of
        Inl err \<Rightarrow> (w, Send 400 (''Webhook Error: '' @ message err))
      | Inr event \<Rightarrow>
          (case dispatch_event (event_data event)
                  (w\<lparr>billing_events := billing_events w @
                       [\<lparr>ev_specialist_id = event_specialistId (event_data event),
                         ev_type = event_type (event_data event),
                         ev_stripe_event_id = event_id event\<rparr>]\<rparr>) of
             (w', Inl e) \<Rightarrow> (w', Rejected e)
           | (w', Inr _) \<Rightarrow> (w', Json 200 (JObj [(''received'', JBool True)]))))"

definition handleStripeWebhook :: "environment \<Rightarrow> webhook_request \<Rightarrow> world \<Rightarrow> world \<times> response" where
  "handleStripeWebhook env req w = handleStripeWebhook_in None env req w"

section \<open>server.js and routes/billing.js\<close>

text \<open>
  The first route server.js registers is
  \<open>app.get('/api/billing/tiers', require('./routes/billing').getTiers)\<close>.
  routes/billing.js exports its router, and a router has no property \<open>getTiers\<close>:
  \<open>exported_getTiers\<close> is what the property read yields, \<open>None\<close> for \<open>undefined\<close>.
  Express refuses a route handler that is not a function, so loading server.js throws
  before any middleware is mounted and before the server listens.
\<close>

definition exported_getTiers :: "unit option" where
  "exported_getTiers = None"

definition load_server :: "js_error + unit" where
  "load_server =
     (case exported_getTiers of
        None \<Rightarrow>
          Inl (Error ''Route.get() requires a callback function but got a [object Undefined]'')
      | Some _ \<Rightarrow> Inr ())"

text \<open>
  \<open>app.use('/api/clients', checkClientLimits, enforceRestrictions, clientRoutes)\<close>, the
  chain of this mount taken on its own; with \<open>load_server\<close> as it is, the process of the
  sources never gets as far as serving a request with it.
  Express hands a request to middleware mounted on a path only when the URL path starts
  with the mount path and goes on with \<open>/\<close>, with \<open>.\<close> or not at all, and inside that
  middleware \<open>req.path\<close> is the rest of the URL path, without the mount path and with a
  leading \<open>/\<close> (so \<open>/\<close> when nothing is left). The mount path is compared as it is
  written. The authentication and usage-tracking middleware mounted on \<open>/api\<close> run
  before; they supply \<open>req.user.id\<close> and write to no table of this model. The client
  routes themselves are not among the sources: \<open>Next\<close> as the outcome of \<open>api_clients\<close>
  means that the request has passed both billing middlewares and is handed to the client
  routes.
\<close>

definition mount_path :: "string \<Rightarrow> string \<Rightarrow> string option" where
  "mount_path mount url =
     (case strip_prefix mount url of
        None \<Rightarrow> None
      | Some rest \<Rightarrow>
          (case rest of
             [] \<Rightarrow> Some ''/''
           | c # _ \<Rightarrow>
               if c = CHR ''/'' then Some rest
               else if c = CHR ''.'' then Some (''/'' @ rest)
               else None))"

definition api_clients :: "string \<Rightarrow> string \<Rightarrow> nat \<Rightarrow> world \<Rightarrow> world \<times> response" where
  "api_clients method url userId w =
     (case mount_path ''/api/clients'' url of
        None \<Rightarrow> (w, Json 404 (JObj [(''error'', JStr ''Not found'')]))
      | Some p \<Rightarrow>
          (let req = \<lparr>req_method = method, req_path = p, req_user_id = userId\<rparr>
           in case checkClientLimits_middleware req w of
                (w1, Next) \<Rightarrow> (w1, enforceRestrictions req w1)
              | (w1, r) \<Rightarrow> (w1, r)))"

text \<open>
  \<open>POST /archive-clients\<close> of the billing router, behind \<open>enforceRestrictions\<close>. In the
  body, \<open>clientIds\<close> is \<open>None\<close> when it is missing or not an array; \<open>reason\<close> is \<open>None\<close>
  when the field is missing, \<open>Some None\<close> when it is \<open>null\<close>.
\<close>

record archive_body =
  body_clientIds :: "nat list option"
  body_reason :: "string option option"

definition archive_clients_route :: "nat \<Rightarrow> archive_body \<Rightarrow> world \<Rightarrow> world \<times> response" where
  "archive_clients_route userId body w =
     (case enforceRestrictions
             \<lparr>req_method = ''POST'', req_path = ''/archive-clients'', req_user_id = userId\<rparr> w of
        Next \<Rightarrow>
          (case body_clientIds body of
             None \<Rightarrow> (w, Json 400 (JObj [(''error'', JStr ''Invalid client IDs'')]))
           | Some clientIds \<Rightarrow>
               (let rsn = (case body_reason body of None \<Rightarrow> Some ''manual_archive'' | Some r \<Rightarrow> r);
                    (w1, rows) =
                      update_clients
                        (\<lambda>c. cl_id c \<in> set clientIds \<and> cl_specialist_id c = userId)
                        (archive_row rsn (clock w)) w
                in case checkClientLimits userId w1 of
                     (w2, Inl e) \<Rightarrow>
                       (w2, Json 500 (JObj [(''error'', JStr ''Failed to archive clients'')]))
                   | (w2, Inr _) \<Rightarrow>
                       (w2, Json 200 (JObj
                          [(''success'', JBool True),
                           (''archived'',
                            JArr (map (\<lambda>r. JObj [(''id'', JNum (int (cl_id r))),
                                                  (''name'', JStr (cl_name r))]) rows)),
                           (''message'',
                            JStr (string_of_nat (length rows) @
                                  '' clients archived successfully''))]))))
      | r \<Rightarrow> (w, r))"

section \<open>Example states\<close>

text \<open>
  The tier rows the migration inserts, and a state with one specialist (id 7) on a given
  tier who owns \<open>n\<close> active clients with ids 1 to \<open>n\<close>, last active at the given times.
\<close>

definition migration_tiers :: "billing_tier list" where
  "migration_tiers =
     [\<lparr>bt_id = ''starter'', bt_name = ''Starter'', client_limit = 10\<rparr>,
      \<lparr>bt_id = ''professional'', bt_name = ''Professional'', client_limit = 50\<rparr>,
      \<lparr>bt_id = ''scale'', bt_name = ''Scale'', client_limit = 150\<rparr>,
      \<lparr>bt_id = ''enterprise'', bt_name = ''Enterprise'', client_limit = - 1\<rparr>]"

definition example_specialist :: "string \<Rightarrow> specialist" where
  "example_specialist tier =
     \<lparr>sp_id = 7, sp_email = ''coach@example.com'', sp_name = ''Coach'',
      billing_tier_id = Some tier, stripe_customer_id = None, stripe_subscription_id = None,
      subscription_status = Some ''trialing'', subscription_start_date = None,
      trial_ends_at = None, cancellation_date = None, is_restricted = False,
      restriction_reason = None, restricted_at = None, client_count = 0\<rparr>"

definition example_client :: "nat \<Rightarrow> timestamp option \<Rightarrow> client" where
  "example_client i t =
     \<lparr>cl_id = i, cl_specialist_id = 7, cl_name = ''Client'', cl_email = ''client@example.com'',
      cl_is_active = True, is_archived = False, archived_at = None, archived_reason = None,
      last_activity = t, marked_for_cleanup = False\<rparr>"

fun example_clients :: "nat \<Rightarrow> timestamp option list \<Rightarrow> client list" where
  "example_clients i [] = []"
| "example_clients i (t # ts) = example_client i t # example_clients (Suc i) ts"

definition example_world :: "string \<Rightarrow> timestamp option list \<Rightarrow> world" where
  "example_world tier ts =
     \<lparr>specialists = [(example_specialist tier)\<lparr>client_count := int (length ts)\<rparr>],
      clients = example_clients 1 ts,
      billing_tiers = migration_tiers,
      scheduled_tasks = [], scheduled_tasks_seq = 1, billing_events = [], invoices = [],
      outbox = [], clock = 100000000\<rparr>"

text \<open>The same state after the limit check has restricted the account.\<close>

definition restricted_world :: "string \<Rightarrow> timestamp option list \<Rightarrow> world" where
  "restricted_world tier ts =
     update_specialists (\<lambda>s. True)
       (\<lambda>s. s\<lparr>is_restricted := True, restriction_reason := Some ''client_limit_exceeded'',
              restricted_at := Some 99990000\<rparr>)
       (example_world tier ts)"

text \<open>The same state with a subscription of the processor attached to the account.\<close>

definition subscribed_world :: "string \<Rightarrow> timestamp option list \<Rightarrow> world" where
  "subscribed_world tier ts =
     update_specialists (\<lambda>s. True)
       (\<lambda>s. s\<lparr>stripe_customer_id := Some ''cus_1'', stripe_subscription_id := Some ''sub_1'',
              subscription_status := Some ''active''\<rparr>)
       (example_world tier ts)"

text \<open>
  A processor that accepts every request, a signature check that rejects every request,
  and an environment.
\<close>

definition example_stripe :: stripe_api where
  "example_stripe =
     \<lparr>customers_create = (\<lambda>mail name specialistId. Inr ''cus_1''),
      paymentMethods_attach = (\<lambda>paymentMethodId customerId. Inr ()),
      customers_update = (\<lambda>customerId paymentMethodId. Inr ()),
      subscriptions_create =
        (\<lambda>p. Inr \<lparr>sub_id = ''sub_1'', sub_status = ''trialing'',
                   sub_trial_end = Some (100000000 + int (trial_period_days p) * 86400),
                   sub_metadata_specialistId = Some (prm_metadata_specialistId p),
                   sub_metadata_tierId = Some (prm_metadata_tierId p)\<rparr>),
      invoices_pay = (\<lambda>invoiceId. Inr ''in_1'')\<rparr>"

definition reject_all :: verifier where
  "reject_all body sig secret =
     Inl (StripeError ''No signatures found matching the expected signature for payload'')"

definition example_env :: environment where
  "example_env =
     \<lparr>STRIPE_PRICE_STARTER = Some ''price_starter'',
      STRIPE_PRICE_PROFESSIONAL = Some ''price_professional'',
      STRIPE_PRICE_SCALE = Some ''price_scale'',
      STRIPE_PRICE_ENTERPRISE = Some ''price_enterprise'',
      STRIPE_WEBHOOK_SECRET = Some ''whsec_test''\<rparr>"

section \<open>The counter invariant\<close>

text \<open>
  The stored counter of the account \<open>i\<close> is the number of its active clients, and the same
  for every account.
\<close>

definition count_ok_for :: "nat \<Rightarrow> world \<Rightarrow> bool" where
  "count_ok_for i w =
     list_all (\<lambda>s. sp_id s = i \<longrightarrow> client_count s = active_clients i w) (specialists w)"

definition count_ok :: "world \<Rightarrow> bool" where
  "count_ok w = list_all (\<lambda>s. client_count s = active_clients (sp_id s) w) (specialists w)"

section \<open>The frame of archiving\<close>

text \<open>
  The row \<open>c'\<close> is the row \<open>c\<close> except, at most, in the columns \<open>is_active\<close>,
  \<open>is_archived\<close>, \<open>archived_at\<close> and \<open>archived_reason\<close>.
\<close>

definition archive_columns_only :: "client \<Rightarrow> client \<Rightarrow> bool" where
  "archive_columns_only c c' =
     (c' = c\<lparr>cl_is_active := cl_is_active c', is_archived := is_archived c',
             archived_at := archived_at c', archived_reason := archived_reason c'\<rparr>)"

definition example_archive_task :: scheduled_task where
  "example_archive_task =
     \<lparr>st_id = 1, task_type = ''archive_client'', st_specialist_id = Some 7,
      st_client_id = Some 2, execute_at = 99990000, executed_at = None,
      st_status = ''pending'', payload = None, result = None\<rparr>"

text \<open>
  A queue of four tasks: a plan downgrade, the archive of client 2 and a payment retry,
  all three due, and a limit warning that is not due yet.
\<close>

definition example_queue :: "scheduled_task list" where
  "example_queue =
     [\<lparr>st_id = 1, task_type = ''downgrade_plan'', st_specialist_id = Some 7,
       st_client_id = None, execute_at = 99980000, executed_at = None,
       st_status = ''pending'', payload = None, result = None\<rparr>,
      \<lparr>st_id = 2, task_type = ''archive_client'', st_specialist_id = Some 7,
       st_client_id = Some 2, execute_at = 99990000, executed_at = None,
       st_status = ''pending'', payload = None, result = None\<rparr>,
      \<lparr>st_id = 3, task_type = ''retry_payment'', st_specialist_id = Some 7,
       st_client_id = None, execute_at = 99995000, executed_at = None,
       st_status = ''pending'', payload = None, result = None\<rparr>,
      \<lparr>st_id = 4, task_type = ''send_limit_warning'', st_specialist_id = Some 7,
       st_client_id = None, execute_at = 100000001, executed_at = None,
       st_status = ''pending'', payload = None, result = None\<rparr>]"

definition queue_world :: world where
  "queue_world = (example_world ''starter'' [None, None])\<lparr>scheduled_tasks := example_queue\<rparr>"

section \<open>The smart archive selection\<close>

text \<open>
  The clients the smart archive may pick for the account \<open>i\<close>: active, and never active or
  last active more than ninety days ago. And the task it schedules for a picked client.
\<close>

definition archive_eligible :: "nat \<Rightarrow> world \<Rightarrow> client \<Rightarrow> bool" where
  "archive_eligible i w c =
     (cl_specialist_id c = i \<and> cl_is_active c \<and>
      (case last_activity c of None \<Rightarrow> True | Some t \<Rightarrow> t < clock w - days 90))"

definition scheduled_in_a_week :: "nat \<Rightarrow> world \<Rightarrow> scheduled_task \<Rightarrow> bool" where
  "scheduled_in_a_week i w t =
     (task_type t = ''archive_client'' \<and> st_specialist_id t = Some i \<and>
      execute_at t = clock w + days 7 \<and> st_status t = ''pending'' \<and> executed_at t = None)"

text \<open>
  Twelve clients on the starter tier, two over the limit: nine were active a quarter of an
  hour ago, client 10 and client 12 long ago, client 11 never.
\<close>

definition stale_world :: world where
  "stale_world =
     restricted_world ''starter''
       (replicate 9 (Some 99999000) @ [Some 5000, None, Some 4000])"

section \<open>The end states of a task\<close>

text \<open>
  The row of a task that the sweep has finished at time \<open>now\<close>: its status is
  \<open>completed\<close> or \<open>failed\<close>, a result is recorded and \<open>executed_at\<close> is set.
\<close>

definition finished_at :: "timestamp \<Rightarrow> scheduled_task \<Rightarrow> bool" where
  "finished_at now x =
     ((st_status x = ''completed'' \<or> st_status x = ''failed'') \<and> result x \<noteq> None \<and>
      executed_at x = Some now)"

section \<open>Properties\<close>

subsection \<open>Frame lemmas\<close>

lemma sendEmail_simps:
  "specialists (sendEmail m w) = specialists w"
  "clients (sendEmail m w) = clients w"
  "billing_tiers (sendEmail m w) = billing_tiers w"
  "scheduled_tasks (sendEmail m w) = scheduled_tasks w"
  "scheduled_tasks_seq (sendEmail m w) = scheduled_tasks_seq w"
  "clock (sendEmail m w) = clock w"
  "outbox (sendEmail m w) = outbox w @ [m]"
  by (simp_all add: sendEmail_def)

lemma update_specialists_simps:
  "specialists (update_specialists P f w) = map (\<lambda>s. if P s then f s else s) (specialists w)"
  "clients (update_specialists P f w) = clients w"
  "billing_tiers (update_specialists P f w) = billing_tiers w"
  "scheduled_tasks (update_specialists P f w) = scheduled_tasks w"
  "scheduled_tasks_seq (update_specialists P f w) = scheduled_tasks_seq w"
  "clock (update_specialists P f w) = clock w"
  "outbox (update_specialists P f w) = outbox w"
  by (simp_all add: update_specialists_def)

lemma find_specialist_sendEmail: "find_specialist i (sendEmail m w) = find_specialist i w"
  by (simp add: find_specialist_def sendEmail_simps)

lemma find_specialist_update:
  assumes "\<And>r. sp_id (f r) = sp_id r"
  shows "find_specialist i (update_specialists P f w) =
         map_option (\<lambda>s. if P s then f s else s) (find_specialist i w)"
proof -
  have "find (\<lambda>s. sp_id s = i) (map (\<lambda>s. if P s then f s else s) xs) =
        map_option (\<lambda>s. if P s then f s else s) (find (\<lambda>s. sp_id s = i) xs)" for xs
    by (induction xs) (auto simp: assms)
  then show ?thesis
    by (simp add: find_specialist_def update_specialists_def)
qed

lemma find_specialist_id: "find_specialist i w = Some s \<Longrightarrow> sp_id s = i"
  by (auto simp: find_specialist_def find_Some_iff)

subsection \<open>The limit check\<close>

lemma checkClientLimits_throws:
  "checkClientLimits specialistId w =
     (w, Inl (DatabaseError ''column bt.tier_id does not exist''))"
  by (simp add: checkClientLimits_def select_columns_def billing_tiers_columns_def)

lemma example_world_specialist:
  "find_specialist 7 (example_world tier ts) =
     Some ((example_specialist tier)\<lparr>client_count := int (length ts)\<rparr>)"
  by (simp add: find_specialist_def example_world_def example_specialist_def)

lemma example_world_limit:
  "map_option client_limit
     (tier_of ((example_specialist ''starter'')\<lparr>client_count := n\<rparr>)
        (example_world ''starter'' ts)) = Some 10"
  "map_option client_limit
     (tier_of ((example_specialist ''enterprise'')\<lparr>client_count := n\<rparr>)
        (example_world ''enterprise'' ts)) = Some (- 1)"
  by (simp_all add: tier_of_def example_world_def example_specialist_def migration_tiers_def)

lemma example_clients_active:
  "length (filter (\<lambda>c. cl_specialist_id c = 7 \<and> cl_is_active c) (example_clients i ts)) =
     length ts"
  by (induction ts arbitrary: i) (simp_all add: example_client_def)

lemma example_world_active: "active_clients 7 (example_world tier ts) = int (length ts)"
  by (simp add: active_clients_def example_world_def example_clients_active)

text \<open>
  C1. A starter account (limit 10) with ten active clients has reached its finite limit.
  \<open>checkClientLimits\<close> does not restrict it: the query of the method fails on the column
  \<open>bt.tier_id\<close>, the method throws, the account stays unrestricted, no notification is
  sent and no result is returned.
\<close>

theorem checkClientLimits_at_limit_throws:
  "find_specialist 7 (example_world ''starter'' (replicate 10 None)) =
     Some ((example_specialist ''starter'')\<lparr>client_count := 10\<rparr>) \<and>
   map_option client_limit
     (tier_of ((example_specialist ''starter'')\<lparr>client_count := 10\<rparr>)
        (example_world ''starter'' (replicate 10 None))) = Some 10 \<and>
   active_clients 7 (example_world ''starter'' (replicate 10 None)) = 10 \<and>
   checkClientLimits 7 (example_world ''starter'' (replicate 10 None)) =
     (example_world ''starter'' (replicate 10 None),
      Inl (DatabaseError ''column bt.tier_id does not exist'')) \<and>
   map_option (\<lambda>s. (is_restricted s, restriction_reason s))
     (find_specialist 7 (fst (checkClientLimits 7 (example_world ''starter'' (replicate 10 None))))) =
     Some (False, None) \<and>
   outbox (fst (checkClientLimits 7 (example_world ''starter'' (replicate 10 None)))) = []"
proof -
  let ?w = "example_world ''starter'' (replicate 10 None)"
  have c1: "find_specialist 7 ?w = Some ((example_specialist ''starter'')\<lparr>client_count := 10\<rparr>)"
    by (simp add: example_world_specialist)
  have c2: "map_option client_limit
              (tier_of ((example_specialist ''starter'')\<lparr>client_count := 10\<rparr>) ?w) = Some 10"
    by (rule example_world_limit)
  have c3: "active_clients 7 ?w = 10"
    by (simp add: example_world_active)
  have c4: "checkClientLimits 7 ?w = (?w, Inl (DatabaseError ''column bt.tier_id does not exist''))"
    by (rule checkClientLimits_throws)
  have c5: "map_option (\<lambda>s. (is_restricted s, restriction_reason s))
              (find_specialist 7 (fst (checkClientLimits 7 ?w))) = Some (False, None)"
    unfolding c4 fst_conv c1 by (simp add: example_specialist_def)
  have c6: "outbox (fst (checkClientLimits 7 ?w)) = []"
    unfolding c4 fst_conv by (simp add: example_world_def)
  show ?thesis
    by (rule conjI [OF c1 conjI [OF c2 conjI [OF c3 conjI [OF c4 conjI [OF c5 c6]]]]])
qed

text \<open>
  C10. An enterprise account (\<open>client_limit = -1\<close>, unlimited) with twelve active clients.
  \<open>checkClientLimits\<close> sets no restriction flag and sends no notification, but it does not
  return a result that is not restricted either: the query of the method fails on the
  column \<open>bt.tier_id\<close> and the method throws.
\<close>

theorem checkClientLimits_unlimited_throws:
  "find_specialist 7 (example_world ''enterprise'' (replicate 12 None)) =
     Some ((example_specialist ''enterprise'')\<lparr>client_count := 12\<rparr>) \<and>
   map_option client_limit
     (tier_of ((example_specialist ''enterprise'')\<lparr>client_count := 12\<rparr>)
        (example_world ''enterprise'' (replicate 12 None))) = Some (- 1) \<and>
   checkClientLimits 7 (example_world ''enterprise'' (replicate 12 None)) =
     (example_world ''enterprise'' (replicate 12 None),
      Inl (DatabaseError ''column bt.tier_id does not exist''))"
  by (simp add: checkClientLimits_throws example_world_specialist example_world_limit)

subsection \<open>The webhook handler\<close>

text \<open>
  C4. When the signature of an inbound webhook request does not verify, so that
  \<open>constructEvent\<close> throws, the handler answers with status 400 and leaves the state as it
  was: no event is appended to the audit table and no account or invoice row is modified.
  This holds for the body of the handler under every binding of \<open>stripe\<close>; the handler
  the module exports, in which \<open>stripe\<close> is unbound, answers every request in this way.
\<close>

theorem webhook_bad_signature:
  assumes "constructEvent (rawBody req) (stripe_signature req) (STRIPE_WEBHOOK_SECRET env) = Inl err"
  shows "fst (handleStripeWebhook_in (Some constructEvent) env req w) = w \<and>
         snd (handleStripeWebhook_in (Some constructEvent) env req w) =
           Send 400 (''Webhook Error: '' @ message err) \<and>
         billing_events (fst (handleStripeWebhook_in (Some constructEvent) env req w)) =
           billing_events w \<and>
         specialists (fst (handleStripeWebhook_in (Some constructEvent) env req w)) =
           specialists w \<and>
         invoices (fst (handleStripeWebhook_in (Some constructEvent) env req w)) = invoices w \<and>
         handleStripeWebhook env req w = (w, Send 400 ''Webhook Error: stripe is not defined'')"
  using assms by (simp add: handleStripeWebhook_in_def handleStripeWebhook_def message_def)

theorem webhook_bad_signature_witness:
  "reject_all (Some ''{}'') (Some ''t=1,v1=00'') (Some ''whsec_test'') =
     Inl (StripeError ''No signatures found matching the expected signature for payload'') \<and>
   handleStripeWebhook_in (Some reject_all) example_env
     \<lparr>rawBody = Some ''{}'', stripe_signature = Some ''t=1,v1=00''\<rparr>
     (example_world ''starter'' [None]) =
   (example_world ''starter'' [None],
    Send 400 ''Webhook Error: No signatures found matching the expected signature for payload'') \<and>
   handleStripeWebhook example_env
     \<lparr>rawBody = Some ''{}'', stripe_signature = Some ''t=1,v1=00''\<rparr>
     (example_world ''starter'' [None]) =
   (example_world ''starter'' [None], Send 400 ''Webhook Error: stripe is not defined'')"
proof -
  let ?req = "\<lparr>rawBody = Some ''{}'', stripe_signature = Some ''t=1,v1=00''\<rparr>"
  have h: "reject_all (rawBody ?req) (stripe_signature ?req) (STRIPE_WEBHOOK_SECRET example_env) =
             Inl (StripeError ''No signatures found matching the expected signature for payload'')"
    by (simp add: reject_all_def)
  show ?thesis
    using webhook_bad_signature [where constructEvent = reject_all and req = ?req
        and env = example_env and w = "example_world ''starter'' [None]", OF h]
    by (simp add: reject_all_def message_def prod_eq_iff)
qed

text \<open>
  C5. The account 7 holds the subscription \<open>sub_1\<close>, and the processor delivers the
  \<open>customer.subscription.deleted\<close> event of that subscription with its signature header.
  The handler the module exports does not get as far as verifying the event: reading the
  unbound name \<open>stripe\<close> throws, the request is answered with status 400, and the account
  keeps its subscription status and has no restriction reason. The rows of the accounts
  and of the clients are kept, but \<open>subscription_canceled\<close> is not set.
\<close>

theorem subscription_deleted_not_handled:
  "handleStripeWebhook example_env
     \<lparr>rawBody = None, stripe_signature = Some ''t=1,v1=00''\<rparr>
     (subscribed_world ''starter'' [None, None]) =
   (subscribed_world ''starter'' [None, None],
    Send 400 ''Webhook Error: stripe is not defined'') \<and>
   map (\<lambda>s. (sp_id s, stripe_subscription_id s, restriction_reason s, subscription_status s,
              is_restricted s))
     (specialists (fst (handleStripeWebhook example_env
        \<lparr>rawBody = None, stripe_signature = Some ''t=1,v1=00''\<rparr>
        (subscribed_world ''starter'' [None, None])))) =
     [(7, Some ''sub_1'', None, Some ''active'', False)]"
  by (simp add: handleStripeWebhook_def handleStripeWebhook_in_def message_def
      subscribed_world_def update_specialists_simps example_world_def example_specialist_def)

subsection \<open>Creating a subscription\<close>

lemma clearRestrictions_update:
  "clearRestrictions (Some i) w =
     update_specialists (\<lambda>s. sp_id s = i)
       (\<lambda>s. s\<lparr>is_restricted := False, restriction_reason := None, restricted_at := None\<rparr>) w"
  by (simp add: clearRestrictions_def eq_commute)

lemma restricted_world_specialist:
  "find_specialist 7 (restricted_world tier ts) =
     Some ((example_specialist tier)
             \<lparr>client_count := int (length ts), is_restricted := True,
              restriction_reason := Some ''client_limit_exceeded'',
              restricted_at := Some 99990000\<rparr>)"
  by (simp add: restricted_world_def find_specialist_update example_world_specialist)

text \<open>
  C9. For an existing account and a tier of \<open>BILLING_TIERS\<close>, when the processor accepts the
  calls, \<open>createSubscription\<close> uses the account's processor customer or, when the account
  has none, the customer it creates, creates the subscription with a trial of 14 days for
  that customer and the tier's price, and returns it with the tier. Afterwards the account
  row holds the customer id, the subscription id and the subscription status, its
  restriction flag is false and its restriction reason is null.
\<close>

theorem createSubscription_success:
  assumes "find_specialist specialistId w = Some s"
    and "BILLING_TIERS env tierId = Some tier"
    and "customerId =
           (if truthy (stripe_customer_id s) then the (stripe_customer_id s) else newCustomer)"
    and "\<not> truthy (stripe_customer_id s) \<Longrightarrow>
           customers_create api (sp_email s) (sp_name s) specialistId = Inr newCustomer"
    and "paymentMethods_attach api paymentMethodId customerId = Inr ()"
    and "customers_update api customerId paymentMethodId = Inr ()"
    and "subscriptions_create api
           \<lparr>prm_customer = customerId, prm_price = tc_priceId tier,
            prm_metadata_specialistId = specialistId, prm_metadata_tierId = tierId,
            trial_period_days = 14, payment_behavior = ''default_incomplete''\<rparr> =
         Inr subscription"
  shows "snd (createSubscription api env specialistId tierId paymentMethodId w) =
           Inr (subscription, tier) \<and>
         find_specialist specialistId
           (fst (createSubscription api env specialistId tierId paymentMethodId w)) =
           Some (s\<lparr>billing_tier_id := Some tierId,
                   stripe_customer_id := Some customerId,
                   stripe_subscription_id := Some (sub_id subscription),
                   subscription_status := Some (sub_status subscription),
                   subscription_start_date := Some (clock w),
                   is_restricted := False,
                   restriction_reason := None,
                   restricted_at := None\<rparr>) \<and>
         (\<forall>r \<in> set (specialists
                       (fst (createSubscription api env specialistId tierId paymentMethodId w))).
            sp_id r = specialistId \<longrightarrow>
              \<not> is_restricted r \<and> restriction_reason r = None \<and>
              stripe_subscription_id r = Some (sub_id subscription) \<and>
              subscription_status r = Some (sub_status subscription))"
proof -
  have id: "sp_id s = specialistId"
    using assms(1) by (rule find_specialist_id)
  show ?thesis
  proof (cases "truthy (stripe_customer_id s)")
    case True
    then have c: "stripe_customer_id s = Some customerId"
      using assms(3) by (auto simp: truthy_def split: option.splits)
    show ?thesis
      using assms(1,2,5,6,7) True c id
      by (auto simp: createSubscription_def clearRestrictions_update find_specialist_update
          update_specialists_simps)
  next
    case False
    then have c: "customerId = newCustomer"
      using assms(3) by simp
    show ?thesis
      using assms(1,2,5,6,7) assms(4) [OF False] False c id
      by (auto simp: createSubscription_def clearRestrictions_update find_specialist_update
          update_specialists_simps)
  qed
qed

theorem createSubscription_success_witness:
  "find_specialist 7 (restricted_world ''starter'' [None]) =
     Some ((example_specialist ''starter'')
             \<lparr>client_count := 1, is_restricted := True,
              restriction_reason := Some ''client_limit_exceeded'',
              restricted_at := Some 99990000\<rparr>) \<and>
   map_option tc_clientLimit (BILLING_TIERS example_env ''professional'') = Some 50 \<and>
   map_option (\<lambda>r. (stripe_customer_id r, stripe_subscription_id r, subscription_status r,
                     is_restricted r, restriction_reason r))
     (find_specialist 7
        (fst (createSubscription example_stripe example_env 7 ''professional'' ''pm_1''
                (restricted_world ''starter'' [None])))) =
     Some (Some ''cus_1'', Some ''sub_1'', Some ''trialing'', False, None)"
proof -
  let ?w = "restricted_world ''starter'' [None]"
  let ?s = "(example_specialist ''starter'')
              \<lparr>client_count := int (length [None :: timestamp option]), is_restricted := True,
               restriction_reason := Some ''client_limit_exceeded'',
               restricted_at := Some 99990000\<rparr>"
  let ?tier = "\<lparr>tc_id = ''professional'', tc_name = ''Professional'', tc_price = 79,
                tc_priceId = Some ''price_professional'', tc_clientLimit = 50,
                tc_features = [''All features'', ''Custom branding'', ''Priority support'',
                               ''Advanced analytics'']\<rparr>"
  let ?sub = "\<lparr>sub_id = ''sub_1'', sub_status = ''trialing'',
               sub_trial_end = Some (100000000 + int 14 * 86400),
               sub_metadata_specialistId = Some 7,
               sub_metadata_tierId = Some ''professional''\<rparr>"
  have h1: "find_specialist 7 ?w = Some ?s"
    by (rule restricted_world_specialist)
  have h2: "BILLING_TIERS example_env ''professional'' = Some ?tier"
    by (simp add: BILLING_TIERS_def example_env_def)
  have h3: "''cus_1'' = (if truthy (stripe_customer_id ?s) then the (stripe_customer_id ?s)
                         else ''cus_1'')"
    by (simp add: truthy_def example_specialist_def)
  have h4: "\<not> truthy (stripe_customer_id ?s) \<Longrightarrow>
              customers_create example_stripe (sp_email ?s) (sp_name ?s) 7 = Inr ''cus_1''"
    by (simp add: example_stripe_def)
  have h5: "paymentMethods_attach example_stripe ''pm_1'' ''cus_1'' = Inr ()"
    by (simp add: example_stripe_def)
  have h6: "customers_update example_stripe ''cus_1'' ''pm_1'' = Inr ()"
    by (simp add: example_stripe_def)
  have h7: "subscriptions_create example_stripe
              \<lparr>prm_customer = ''cus_1'', prm_price = tc_priceId ?tier,
               prm_metadata_specialistId = 7, prm_metadata_tierId = ''professional'',
               trial_period_days = 14, payment_behavior = ''default_incomplete''\<rparr> =
            Inr ?sub"
    by (simp add: example_stripe_def)
  show ?thesis
    using createSubscription_success [OF h1 h2 h3 h4 h5 h6 h7] h1 h2
    by (simp add: example_specialist_def)
qed

subsection \<open>The client counter\<close>

lemma active_clients_cong: "clients v = clients w \<Longrightarrow> active_clients i v = active_clients i w"
  by (simp add: active_clients_def)

lemma recount_simps:
  "clients (recount i w) = clients w"
  "specialists (recount i w) =
     map (\<lambda>s. if sp_id s = i then s\<lparr>client_count := active_clients i w\<rparr> else s) (specialists w)"
  by (simp_all add: recount_def update_specialists_simps)

lemma fold_triggers_clients:
  "clients (fold (\<lambda>old. update_client_count (TG_UPDATE old (f old))) olds v) = clients v"
proof (induction olds arbitrary: v)
  case Nil
  then show ?case by simp
next
  case (Cons x xs)
  have "clients (update_client_count (TG_UPDATE x (f x)) v) = clients v"
    by (simp add: recount_simps)
  then show ?case
    by (simp add: Cons.IH del: update_client_count.simps)
qed

lemma fold_triggers_specialists:
  "specialists (fold (\<lambda>old. update_client_count (TG_UPDATE old (f old))) olds v) =
     map (\<lambda>s. if \<exists>old \<in> set olds. cl_is_active (f old) \<noteq> cl_is_active old \<and>
                                     cl_specialist_id (f old) = sp_id s
               then s\<lparr>client_count := active_clients (sp_id s) v\<rparr> else s)
       (specialists v)"
proof (induction olds arbitrary: v)
  case Nil
  then show ?case by simp
next
  case (Cons x xs)
  let ?v = "update_client_count (TG_UPDATE x (f x)) v"
  have a: "active_clients i ?v = active_clients i v" for i
    by (rule active_clients_cong) (simp add: recount_simps)
  have step: "specialists (fold (\<lambda>old. update_client_count (TG_UPDATE old (f old))) (x # xs) v) =
      map (\<lambda>s. if \<exists>old \<in> set xs. cl_is_active (f old) \<noteq> cl_is_active old \<and>
                                     cl_specialist_id (f old) = sp_id s
                then s\<lparr>client_count := active_clients (sp_id s) v\<rparr> else s)
        (specialists ?v)"
    by (simp only: fold_simps Cons.IH a)
  have sv: "specialists ?v =
      map (\<lambda>s. if cl_is_active (f x) \<noteq> cl_is_active x \<and> cl_specialist_id (f x) = sp_id s
                then s\<lparr>client_count := active_clients (sp_id s) v\<rparr> else s) (specialists v)"
    by (simp add: recount_simps eq_commute [of "cl_specialist_id (f x)"] cong: if_cong) 
  show ?case
    unfolding step sv map_map
    by (rule map_cong [OF refl]) auto
qed

lemma update_clients_clients:
  "clients (fst (update_clients P f w)) = map (\<lambda>c. if P c then f c else c) (clients w)"
  by (simp add: update_clients_def Let_def fold_triggers_clients)

lemma active_clients_unchanged:
  assumes "\<And>c. cl_specialist_id (f c) = cl_specialist_id c"
    and "\<forall>c \<in> set xs. P c \<and> cl_specialist_id c = i \<longrightarrow> cl_is_active (f c) = cl_is_active c"
  shows "length (filter (\<lambda>c. cl_specialist_id c = i \<and> cl_is_active c)
                   (map (\<lambda>c. if P c then f c else c) xs)) =
         length (filter (\<lambda>c. cl_specialist_id c = i \<and> cl_is_active c) xs)"
  using assms(2) by (induction xs) (auto simp: assms(1))

lemma update_clients_specialists:
  "specialists (fst (update_clients P f w)) =
     map (\<lambda>s. if \<exists>old \<in> set (filter P (clients w)).
                    cl_is_active (f old) \<noteq> cl_is_active old \<and> cl_specialist_id (f old) = sp_id s
               then s\<lparr>client_count := active_clients (sp_id s) (fst (update_clients P f w))\<rparr>
               else s)
       (specialists w)"
proof -
  have a: "active_clients i (fst (update_clients P f w)) =
           active_clients i (w\<lparr>clients := map (\<lambda>c. if P c then f c else c) (clients w)\<rparr>)" for i
    by (rule active_clients_cong) (simp add: update_clients_clients)
  show ?thesis
    unfolding a by (simp add: update_clients_def Let_def fold_triggers_specialists)
qed

lemma insert_client_simps:
  "clients (insert_client c w) = clients w @ [c]"
  "specialists (insert_client c w) =
     map (\<lambda>s. if sp_id s = cl_specialist_id c
               then s\<lparr>client_count := active_clients (cl_specialist_id c) (insert_client c w)\<rparr>
               else s)
       (specialists w)"
proof -
  show c: "clients (insert_client c w) = clients w @ [c]"
    by (simp add: insert_client_def recount_simps)
  have a: "active_clients i (insert_client c w) =
           active_clients i (w\<lparr>clients := clients w @ [c]\<rparr>)" for i
    by (rule active_clients_cong) (simp add: c)
  show "specialists (insert_client c w) =
     map (\<lambda>s. if sp_id s = cl_specialist_id c
               then s\<lparr>client_count := active_clients (cl_specialist_id c) (insert_client c w)\<rparr>
               else s)
       (specialists w)"
    unfolding a by (simp add: insert_client_def recount_simps)
qed

lemma insert_client_exact: "count_ok_for (cl_specialist_id c) (insert_client c w)"
  by (auto simp: count_ok_for_def insert_client_simps(2) list_all_iff)

lemma insert_client_count_ok:
  assumes "count_ok w"
  shows "count_ok (insert_client c w)"
proof -
  have other: "active_clients i (insert_client c w) = active_clients i w"
    if "i \<noteq> cl_specialist_id c" for i
    using that by (simp add: active_clients_def insert_client_simps(1))
  show ?thesis
    using assms
    by (auto simp: count_ok_def insert_client_simps(2) list_all_iff other)
qed

lemma update_clients_exact:
  assumes "\<And>r. cl_specialist_id (f r) = cl_specialist_id r"
    and "old \<in> set (clients w)" and "P old" and "cl_is_active (f old) \<noteq> cl_is_active old"
  shows "count_ok_for (cl_specialist_id old) (fst (update_clients P f w))"
proof -
  have "\<exists>d \<in> set (filter P (clients w)).
          cl_is_active (f d) \<noteq> cl_is_active d \<and> cl_specialist_id (f d) = cl_specialist_id old"
    using assms by auto
  then show ?thesis
    unfolding count_ok_for_def update_clients_specialists list_all_iff
    by (auto simp del: set_filter)
qed

lemma update_clients_count_ok:
  assumes "\<And>r. cl_specialist_id (f r) = cl_specialist_id r"
    and "count_ok w"
  shows "count_ok (fst (update_clients P f w))"
proof -
  have keep: "active_clients (sp_id s) (fst (update_clients P f w)) = active_clients (sp_id s) w"
    if "\<not> (\<exists>old \<in> set (filter P (clients w)).
              cl_is_active (f old) \<noteq> cl_is_active old \<and> cl_specialist_id (f old) = sp_id s)"
    for s :: specialist
  proof -
    have "\<forall>c \<in> set (clients w). P c \<and> cl_specialist_id c = sp_id s \<longrightarrow>
            cl_is_active (f c) = cl_is_active c"
      using that by (auto simp: assms(1))
    then show ?thesis
      unfolding active_clients_def update_clients_clients
      by (simp only: active_clients_unchanged [OF assms(1)])
  qed
  show ?thesis
    unfolding count_ok_def update_clients_specialists list_all_iff
    using assms(2) by (auto simp: count_ok_def list_all_iff keep simp del: set_filter)
qed

text \<open>
  C2. The trigger keeps the stored counter equal to the number of active clients.
  After the insertion of a client the counter of its account is the number of that
  account's active clients. After an \<open>UPDATE\<close> of client rows that leaves their owner
  alone, such as archiving (which sets \<open>is_active\<close> to false) or reactivating (which sets
  it to true), the same holds for the account of every row whose \<open>is_active\<close> has
  changed: the recount runs for each of them. Both statements keep the counters of all
  accounts exact when they were exact before.
\<close>

theorem client_count_maintained:
  "count_ok_for (cl_specialist_id c) (insert_client c w) \<and>
   (count_ok w \<longrightarrow> count_ok (insert_client c w)) \<and>
   ((\<forall>r. cl_specialist_id (f r) = cl_specialist_id r) \<longrightarrow>
      (\<forall>old \<in> set (clients w). P old \<and> cl_is_active (f old) \<noteq> cl_is_active old \<longrightarrow>
         count_ok_for (cl_specialist_id old) (fst (update_clients P f w))) \<and>
      (count_ok w \<longrightarrow> count_ok (fst (update_clients P f w))))"
  using insert_client_exact insert_client_count_ok update_clients_exact update_clients_count_ok
  by blast

theorem client_count_maintained_witness:
  "count_ok (example_world ''starter'' [None, None]) \<and>
   (\<forall>r. cl_specialist_id (archive_row (Some ''manual_archive'') 100000000 r) = cl_specialist_id r) \<and>
   count_ok (insert_client (example_client 3 None) (example_world ''starter'' [None, None])) \<and>
   map client_count
     (specialists (insert_client (example_client 3 None) (example_world ''starter'' [None, None]))) =
     [3] \<and>
   count_ok (fst (update_clients (\<lambda>c. cl_id c = 2) (archive_row (Some ''manual_archive'') 100000000)
                    (example_world ''starter'' [None, None]))) \<and>
   map client_count
     (specialists (fst (update_clients (\<lambda>c. cl_id c = 2)
                          (archive_row (Some ''manual_archive'') 100000000)
                          (example_world ''starter'' [None, None])))) = [1]"
proof -
  let ?w = "example_world ''starter'' [None, None]"
  let ?f = "archive_row (Some ''manual_archive'') 100000000"
  have "specialists ?w = [(example_specialist ''starter'')\<lparr>client_count := 2\<rparr>]"
    by (simp add: example_world_def)
  then have h1: "count_ok ?w"
    by (simp add: count_ok_def example_world_active example_specialist_def)
  have h2: "\<forall>r. cl_specialist_id (?f r) = cl_specialist_id r"
    by (simp add: archive_row_def)
  have e1: "map client_count (specialists (insert_client (example_client 3 None) ?w)) = [3]"
    by (simp add: insert_client_def recount_def update_specialists_def active_clients_def
        example_world_def example_client_def example_specialist_def)
  have e2: "map client_count (specialists (fst (update_clients (\<lambda>c. cl_id c = 2) ?f ?w))) = [1]"
    by (simp add: update_clients_def Let_def recount_def update_specialists_def
        active_clients_def archive_row_def example_world_def example_client_def
        example_specialist_def)
  show ?thesis
    using client_count_maintained [of "example_client 3 None" ?w ?f "\<lambda>c. cl_id c = 2"] h1 h2 e1 e2
    by simp
qed

subsection \<open>Archiving\<close>

lemma notify_frame:
  "clients (fst (notifyLimitReached i n l t w)) = clients w"
  "clients (fst (notifyApproachingLimit i n l w)) = clients w"
  "scheduled_tasks (fst (notifyLimitReached i n l t w)) = scheduled_tasks w"
  "scheduled_tasks (fst (notifyApproachingLimit i n l w)) = scheduled_tasks w"
  "clock (fst (notifyLimitReached i n l t w)) = clock w"
  "clock (fst (notifyApproachingLimit i n l w)) = clock w"
  by (simp_all add: notifyLimitReached_def notifyApproachingLimit_def sendEmail_simps
      split: option.splits)

lemma checkClientLimits_frame:
  "clients (fst (checkClientLimits i w)) = clients w"
  "scheduled_tasks (fst (checkClientLimits i w)) = scheduled_tasks w"
  "clock (fst (checkClientLimits i w)) = clock w"
  by (simp_all add: checkClientLimits_throws)

lemma checkClientLimits_clientsD: "checkClientLimits i w = (w', r) \<Longrightarrow> clients w' = clients w"
  using checkClientLimits_frame(1) [of i w] by simp

lemma archive_columns_only_map:
  "list_all2 archive_columns_only xs (map (\<lambda>c. if P c then archive_row r t c else c) xs)"
  by (simp add: list_all2_map2 list_all2_same archive_columns_only_def archive_row_def)

lemma archiveClient_clients:
  "clients (fst (archiveClient task w)) =
     map (\<lambda>c. if Some (cl_id c) = st_client_id task \<and>
                  Some (cl_specialist_id c) = st_specialist_id task
               then archive_row
                      (Some (or_default (case payload task of None \<Rightarrow> None | Some p \<Rightarrow> pl_reason p)
                               ''auto_archived_billing_limit''))
                      (clock w) c
               else c) (clients w)"
proof -
  have "clients (fst (archiveClient task w)) =
        clients (fst (update_clients
           (\<lambda>c. Some (cl_id c) = st_client_id task \<and>
                 Some (cl_specialist_id c) = st_specialist_id task)
           (archive_row
              (Some (or_default (case payload task of None \<Rightarrow> None | Some p \<Rightarrow> pl_reason p)
                       ''auto_archived_billing_limit''))
              (clock w)) w))"
    by (auto simp: archiveClient_def Let_def dest: checkClientLimits_clientsD
        split: prod.splits list.splits option.splits sum.splits)
  then show ?thesis
    by (simp add: update_clients_clients)
qed

lemma archive_clients_route_clients:
  "\<exists>P r. clients (fst (archive_clients_route userId body w)) =
     map (\<lambda>c. if P c then archive_row r (clock w) c else c) (clients w)"
proof (cases "\<exists>ids. enforceRestrictions
           \<lparr>req_method = ''POST'', req_path = ''/archive-clients'', req_user_id = userId\<rparr> w = Next
          \<and> body_clientIds body = Some ids")
  case True
  then obtain ids where ids: "enforceRestrictions
           \<lparr>req_method = ''POST'', req_path = ''/archive-clients'', req_user_id = userId\<rparr> w = Next"
     "body_clientIds body = Some ids"
    by blast
  let ?P = "\<lambda>c. cl_id c \<in> set ids \<and> cl_specialist_id c = userId"
  let ?r = "case body_reason body of None \<Rightarrow> Some ''manual_archive'' | Some r \<Rightarrow> r"
  have "clients (fst (archive_clients_route userId body w)) =
        clients (fst (update_clients ?P (archive_row ?r (clock w)) w))"
    using ids
    by (auto simp: archive_clients_route_def Let_def dest: checkClientLimits_clientsD
        split: prod.splits sum.splits)
  then have "clients (fst (archive_clients_route userId body w)) =
     map (\<lambda>c. if ?P c then archive_row ?r (clock w) c else c) (clients w)"
    unfolding update_clients_clients .
  then show ?thesis
    by (intro exI [where x = ?P] exI [where x = ?r])
next
  case False
  then have "clients (fst (archive_clients_route userId body w)) = clients w"
    by (auto simp: archive_clients_route_def split: response.splits option.splits)
  then have "clients (fst (archive_clients_route userId body w)) =
     map (\<lambda>c. if False then archive_row None (clock w) c else c) (clients w)"
    by simp
  then show ?thesis
    by (intro exI [where x = "\<lambda>c. False"] exI [where x = None])
qed

text \<open>
  C8, as amended. Archiving, by the scheduled task and by the \<open>POST /archive-clients\<close>
  route alike, keeps every row of \<open>clients\<close> in its place, and a row differs from what it
  was at most in the columns \<open>is_active\<close>, \<open>is_archived\<close>, \<open>archived_at\<close> and
  \<open>archived_reason\<close>.
\<close>

theorem archive_keeps_rows:
  "list_all2 archive_columns_only (clients w) (clients (fst (archiveClient task w))) \<and>
   list_all2 archive_columns_only (clients w)
     (clients (fst (archive_clients_route userId body w)))"
proof -
  obtain P r where "clients (fst (archive_clients_route userId body w)) =
     map (\<lambda>c. if P c then archive_row r (clock w) c else c) (clients w)"
    using archive_clients_route_clients by blast
  then show ?thesis
    by (simp add: archiveClient_clients archive_columns_only_map)
qed

text \<open>
  Archiving writes a fourth column: the scheduled archive of client 2 sets its
  \<open>archived_reason\<close>, which was null.
\<close>

theorem archive_reason_counterexample:
  "map archived_reason (clients (example_world ''starter'' [None, None])) = [None, None] \<and>
   map archived_reason
     (clients (fst (archiveClient example_archive_task (example_world ''starter'' [None, None])))) =
     [None, Some ''auto_archived_billing_limit'']"
  by (simp add: archiveClient_clients example_archive_task_def or_default_def archive_row_def
      example_world_def example_client_def)

subsection \<open>The sweep over due tasks\<close>

lemma recount_frame:
  "scheduled_tasks (recount i w) = scheduled_tasks w"
  "clock (recount i w) = clock w"
  by (simp_all add: recount_def update_specialists_simps)

lemma fold_triggers_frame:
  "scheduled_tasks (fold (\<lambda>old. update_client_count (TG_UPDATE old (f old))) olds v) =
     scheduled_tasks v \<and>
   clock (fold (\<lambda>old. update_client_count (TG_UPDATE old (f old))) olds v) = clock v"
proof (induction olds arbitrary: v)
  case Nil
  then show ?case by simp
next
  case (Cons x xs)
  have "scheduled_tasks (update_client_count (TG_UPDATE x (f x)) v) = scheduled_tasks v"
    "clock (update_client_count (TG_UPDATE x (f x)) v) = clock v"
    by (simp_all add: recount_frame)
  then show ?case
    by (simp add: Cons.IH del: update_client_count.simps)
qed

lemma update_clients_frame:
  "scheduled_tasks (fst (update_clients P f w)) = scheduled_tasks w"
  "clock (fst (update_clients P f w)) = clock w"
  by (simp_all add: update_clients_def Let_def fold_triggers_frame)

lemma checkClientLimits_frameD:
  assumes "checkClientLimits i w = (w', r)"
  shows "scheduled_tasks w' = scheduled_tasks w" and "clock w' = clock w"
  using checkClientLimits_frame(2,3) [of i w] assms by simp_all

lemma update_clients_frameD:
  assumes "update_clients P f w = (w', rows)"
  shows "scheduled_tasks w' = scheduled_tasks w" and "clock w' = clock w"
  using update_clients_frame [of P f w] assms by simp_all

lemma archiveClient_frame:
  "scheduled_tasks (fst (archiveClient task w)) = scheduled_tasks w \<and>
   clock (fst (archiveClient task w)) = clock w"
proof -
  let ?rsn = "or_default (case payload task of None \<Rightarrow> None | Some p \<Rightarrow> pl_reason p)
                ''auto_archived_billing_limit''"
  obtain w1 rows where u:
    "update_clients
       (\<lambda>c. Some (cl_id c) = st_client_id task \<and> Some (cl_specialist_id c) = st_specialist_id task)
       (archive_row (Some ?rsn) (clock w)) w = (w1, rows)"
    by (rule prod.exhaust)
  have f1: "scheduled_tasks w1 = scheduled_tasks w" "clock w1 = clock w"
    using update_clients_frameD [OF u] by simp_all
  show ?thesis
  proof (cases rows)
    case Nil
    then show ?thesis
      unfolding archiveClient_def Let_def u by (simp add: f1)
  next
    case (Cons r rs)
    show ?thesis
    proof (cases "st_specialist_id task")
      case None
      then show ?thesis
        unfolding archiveClient_def Let_def u by (simp add: f1 Cons)
    next
      case (Some sid)
      obtain w2 res where c: "checkClientLimits sid w1 = (w2, res)"
        by (rule prod.exhaust)
      have f2: "scheduled_tasks w2 = scheduled_tasks w" "clock w2 = clock w"
        using checkClientLimits_frameD [OF c] f1 by simp_all
      show ?thesis
        unfolding archiveClient_def Let_def u by (simp add: Cons Some c f2 split: sum.splits)
    qed
  qed
qed

lemma sendLimitWarning_frame:
  "scheduled_tasks (fst (sendLimitWarning task w)) = scheduled_tasks w"
  "clock (fst (sendLimitWarning task w)) = clock w"
proof -
  have n: "fst (case notifyApproachingLimit i n l v of
                   (w', Inl e) \<Rightarrow> (w', Inl e)
                 | (w', Inr u) \<Rightarrow> (w', Inr (r :: task_result))) =
            fst (notifyApproachingLimit i n l v)" for i n l v r
    by (simp split: prod.splits sum.splits)
  show "scheduled_tasks (fst (sendLimitWarning task w)) = scheduled_tasks w"
    "clock (fst (sendLimitWarning task w)) = clock w"
    by (simp_all add: sendLimitWarning_def n notify_frame split: option.splits)
qed

lemma retryPayment_frame: "fst (retryPayment api task w) = w"
  by (simp add: retryPayment_def split: option.splits sum.splits)

lemma run_task_frame:
  "scheduled_tasks (fst (run_task api task w)) = scheduled_tasks w"
  "clock (fst (run_task api task w)) = clock w"
  by (simp_all add: run_task_def archiveClient_frame sendLimitWarning_frame retryPayment_frame)

lemma mark_processing_tasks:
  "scheduled_tasks (mark_processing t v) =
     map (\<lambda>x. if st_id x = st_id t then x\<lparr>st_status := ''processing''\<rparr> else x)
       (scheduled_tasks v)"
  "clock (mark_processing t v) = clock v"
  by (simp_all add: mark_processing_def update_task_def)

lemma mark_finished_tasks:
  "scheduled_tasks (mark_finished t s r v) =
     map (\<lambda>x. if st_id x = st_id t
               then x\<lparr>st_status := s, executed_at := Some (clock v), result := Some r\<rparr>
               else x)
       (scheduled_tasks v)"
  "clock (mark_finished t s r v) = clock v"
  by (simp_all add: mark_finished_def update_task_def)

lemma executeTask_steps:
  "\<exists>s r. (s = ''completed'' \<or> s = ''failed'') \<and>
          executeTask api t v =
            mark_finished t s r (fst (run_task api t (mark_processing t v)))"
proof (cases "run_task api t (mark_processing t v)")
  case (Pair w' res)
  show ?thesis
  proof (cases res)
    case (Inl e)
    then have "executeTask api t v =
        mark_finished t ''failed'' (TaskError (message e))
          (fst (run_task api t (mark_processing t v)))"
      by (simp add: executeTask_def Pair)
    then show ?thesis
      by blast
  next
    case (Inr r)
    then have "executeTask api t v =
        mark_finished t ''completed'' r (fst (run_task api t (mark_processing t v)))"
      by (simp add: executeTask_def Pair)
    then show ?thesis
      by blast
  qed
qed



lemma executeTask_outcome:
  "(case snd (run_task api t (mark_processing t v)) of
      Inr r \<Rightarrow>
        executeTask api t v =
          mark_finished t ''completed'' r (fst (run_task api t (mark_processing t v)))
    | Inl e \<Rightarrow>
        executeTask api t v =
          mark_finished t ''failed'' (TaskError (message e))
            (fst (run_task api t (mark_processing t v))))"
  by (simp add: executeTask_def split: prod.splits sum.splits)

lemma processing_while_running:
  "\<forall>x \<in> set (scheduled_tasks (fst (run_task api t (mark_processing t v)))).
     st_id x = st_id t \<longrightarrow> st_status x = ''processing''"
  unfolding run_task_frame mark_processing_tasks by auto


lemma executeTask_clock: "clock (executeTask api t v) = clock v"
proof -
  obtain s r where
    "executeTask api t v = mark_finished t s r (fst (run_task api t (mark_processing t v)))"
    using executeTask_steps [of api t v] by blast
  then show ?thesis
    by (simp add: mark_finished_tasks run_task_frame mark_processing_tasks)
qed

lemma executeTask_tasks:
  "\<exists>s r. (s = ''completed'' \<or> s = ''failed'') \<and>
          scheduled_tasks (executeTask api t v) =
            map (\<lambda>x. if st_id x = st_id t
                      then x\<lparr>st_status := s, executed_at := Some (clock v), result := Some r\<rparr>
                      else x)
              (scheduled_tasks v)"
proof -
  obtain s r where sr: "s = ''completed'' \<or> s = ''failed''"
    "executeTask api t v = mark_finished t s r (fst (run_task api t (mark_processing t v)))"
    using executeTask_steps [of api t v] by blast
  have "scheduled_tasks (executeTask api t v) =
          map (\<lambda>x. if st_id x = st_id t
                    then x\<lparr>st_status := s, executed_at := Some (clock v), result := Some r\<rparr>
                    else x)
            (scheduled_tasks v)"
    unfolding sr(2) mark_finished_tasks run_task_frame mark_processing_tasks map_map
    by (rule map_cong [OF refl]) simp
  with sr(1) show ?thesis
    by blast
qed

lemma batch_finished:
  "clock (fold (executeTask api) ts v) = clock v \<and>
   map st_id (scheduled_tasks (fold (executeTask api) ts v)) = map st_id (scheduled_tasks v) \<and>
   (\<forall>x \<in> set (scheduled_tasks (fold (executeTask api) ts v)).
      if st_id x \<in> st_id ` set ts then finished_at (clock v) x
      else x \<in> set (scheduled_tasks v))"
proof (induction ts arbitrary: v)
  case Nil
  then show ?case by simp
next
  case (Cons t ts)
  let ?v = "executeTask api t v"
  obtain s r where sr: "s = ''completed'' \<or> s = ''failed''"
    "scheduled_tasks ?v =
       map (\<lambda>x. if st_id x = st_id t
                 then x\<lparr>st_status := s, executed_at := Some (clock v), result := Some r\<rparr>
                 else x)
         (scheduled_tasks v)"
    using executeTask_tasks [of api t v] by blast
  have ids: "map st_id (scheduled_tasks ?v) = map st_id (scheduled_tasks v)"
    unfolding sr(2) map_map by (rule map_cong [OF refl]) simp
  have rows: "finished_at (clock v) x" if "x \<in> set (scheduled_tasks ?v)" "st_id x = st_id t" for x
    using that sr(1) unfolding sr(2) by (auto simp: finished_at_def)
  have others: "x \<in> set (scheduled_tasks v)"
    if "x \<in> set (scheduled_tasks ?v)" "st_id x \<noteq> st_id t" for x
    using that unfolding sr(2) by (auto split: if_splits)
  have ih: "clock (fold (executeTask api) ts ?v) = clock ?v"
    "map st_id (scheduled_tasks (fold (executeTask api) ts ?v)) = map st_id (scheduled_tasks ?v)"
    "\<forall>x \<in> set (scheduled_tasks (fold (executeTask api) ts ?v)).
       if st_id x \<in> st_id ` set ts then finished_at (clock ?v) x
       else x \<in> set (scheduled_tasks ?v)"
    using Cons.IH [of ?v] by simp_all
  have c: "clock ?v = clock v"
    by (rule executeTask_clock)
  have "if st_id x \<in> st_id ` set (t # ts) then finished_at (clock v) x
        else x \<in> set (scheduled_tasks v)"
    if x: "x \<in> set (scheduled_tasks (fold (executeTask api) ts ?v))" for x
  proof (cases "st_id x \<in> st_id ` set ts")
    case True
    then show ?thesis
      using ih(3) x c by auto
  next
    case False
    then have "x \<in> set (scheduled_tasks ?v)"
      using ih(3) x by auto
    then show ?thesis
      using False rows [of x] others [of x] by auto
  qed
  then show ?case
    using ih(1,2) c ids by simp
qed


lemma due_tasks_pending:
  assumes "t \<in> set (due_tasks w)"
  shows "t \<in> set (scheduled_tasks w) \<and> st_status t = ''pending'' \<and> execute_at t \<le> clock w"
proof -
  have "t \<in> set (sort_key execute_at
          (filter (\<lambda>t. st_status t = ''pending'' \<and> execute_at t \<le> clock w) (scheduled_tasks w)))"
    using assms unfolding due_tasks_def by (rule in_set_takeD)
  then show ?thesis
    by simp
qed

text \<open>
  C7. Every task of the batch a sweep polls is a pending task that is due. Executing a
  task marks its row as \<open>processing\<close> and runs the action while the row stays so; it
  then records \<open>completed\<close> with the result of the action when the action returns, and
  \<open>failed\<close> with the error message when the action throws. The sweep executes every
  task of the batch: after it, the row of each of them is finished, whatever happened to
  the others, and no row has been added or removed.
\<close>

theorem sweep_isolates_tasks:
  "(\<forall>t \<in> set (due_tasks w).
      t \<in> set (scheduled_tasks w) \<and> st_status t = ''pending'' \<and> execute_at t \<le> clock w \<and>
      (\<forall>x \<in> set (scheduled_tasks (runPendingTasks api w)).
         st_id x = st_id t \<longrightarrow> finished_at (clock w) x)) \<and>
   (\<forall>t v.
      (\<forall>x \<in> set (scheduled_tasks (fst (run_task api t (mark_processing t v)))).
         st_id x = st_id t \<longrightarrow> st_status x = ''processing'') \<and>
      (case snd (run_task api t (mark_processing t v)) of
         Inr r \<Rightarrow>
           executeTask api t v =
             mark_finished t ''completed'' r (fst (run_task api t (mark_processing t v)))
       | Inl e \<Rightarrow>
           executeTask api t v =
             mark_finished t ''failed'' (TaskError (message e))
               (fst (run_task api t (mark_processing t v))))) \<and>
   map st_id (scheduled_tasks (runPendingTasks api w)) = map st_id (scheduled_tasks w)"
proof -
  have fin: "finished_at (clock w) x"
    if "t \<in> set (due_tasks w)" "x \<in> set (scheduled_tasks (runPendingTasks api w))"
      "st_id x = st_id t" for t x
    using batch_finished [of api "due_tasks w" w] that
    by (auto simp: runPendingTasks_def split: if_splits)
  have ids: "map st_id (scheduled_tasks (runPendingTasks api w)) = map st_id (scheduled_tasks w)"
    using batch_finished [of api "due_tasks w" w] by (simp add: runPendingTasks_def)
  have batch: "\<forall>t \<in> set (due_tasks w).
      t \<in> set (scheduled_tasks w) \<and> st_status t = ''pending'' \<and> execute_at t \<le> clock w \<and>
      (\<forall>x \<in> set (scheduled_tasks (runPendingTasks api w)).
         st_id x = st_id t \<longrightarrow> finished_at (clock w) x)"
  proof
    fix t
    assume t: "t \<in> set (due_tasks w)"
    show "t \<in> set (scheduled_tasks w) \<and> st_status t = ''pending'' \<and> execute_at t \<le> clock w \<and>
      (\<forall>x \<in> set (scheduled_tasks (runPendingTasks api w)).
         st_id x = st_id t \<longrightarrow> finished_at (clock w) x)"
      using due_tasks_pending [OF t] fin [OF t] by simp
  qed
  have step: "\<forall>t v.
      (\<forall>x \<in> set (scheduled_tasks (fst (run_task api t (mark_processing t v)))).
         st_id x = st_id t \<longrightarrow> st_status x = ''processing'') \<and>
      (case snd (run_task api t (mark_processing t v)) of
         Inr r \<Rightarrow>
           executeTask api t v =
             mark_finished t ''completed'' r (fst (run_task api t (mark_processing t v)))
       | Inl e \<Rightarrow>
           executeTask api t v =
             mark_finished t ''failed'' (TaskError (message e))
               (fst (run_task api t (mark_processing t v))))"
  proof (intro allI conjI)
    fix t v
    show "\<forall>x \<in> set (scheduled_tasks (fst (run_task api t (mark_processing t v)))).
           st_id x = st_id t \<longrightarrow> st_status x = ''processing''"
      by (rule processing_while_running)
    show "case snd (run_task api t (mark_processing t v)) of
         Inr r \<Rightarrow>
           executeTask api t v =
             mark_finished t ''completed'' r (fst (run_task api t (mark_processing t v)))
       | Inl e \<Rightarrow>
           executeTask api t v =
             mark_finished t ''failed'' (TaskError (message e))
               (fst (run_task api t (mark_processing t v)))"
      by (rule executeTask_outcome)
  qed
  show ?thesis
    by (intro conjI batch step ids)
qed


lemma queue_due: "map st_id (due_tasks queue_world) = [1, 2, 3]"
  by (simp add: due_tasks_def queue_world_def example_queue_def example_world_def)

lemma queue_swept:
  "map (\<lambda>x. (st_id x, st_status x, result x))
     (scheduled_tasks (runPendingTasks example_stripe queue_world)) =
   [(1, ''failed'', Some (TaskError ''this.downgradePlan is not a function'')),
    (2, ''failed'', Some (TaskError ''column bt.tier_id does not exist'')),
    (3, ''completed'', Some (TaskResult False ''No subscription found'' None)),
    (4, ''pending'', None)]"
  by code_simp

theorem sweep_isolates_tasks_witness:
  "map st_id (due_tasks queue_world) = [1, 2, 3] \<and>
   map (finished_at (clock queue_world))
     (scheduled_tasks (runPendingTasks example_stripe queue_world)) =
     [True, True, True, False] \<and>
   map (\<lambda>x. (st_id x, st_status x, result x))
     (scheduled_tasks (runPendingTasks example_stripe queue_world)) =
   [(1, ''failed'', Some (TaskError ''this.downgradePlan is not a function'')),
    (2, ''failed'', Some (TaskError ''column bt.tier_id does not exist'')),
    (3, ''completed'', Some (TaskResult False ''No subscription found'' None)),
    (4, ''pending'', None)]"
proof -
  have batch: "\<forall>t \<in> set (due_tasks queue_world).
      \<forall>x \<in> set (scheduled_tasks (runPendingTasks example_stripe queue_world)).
         st_id x = st_id t \<longrightarrow> finished_at (clock queue_world) x"
    using sweep_isolates_tasks [of queue_world example_stripe] by simp
  have "st_id ` set (due_tasks queue_world) = {1, 2, 3}"
    using queue_due by (metis list.set_map list.simps(15) empty_set)
  then have fin: "\<forall>x \<in> set (scheduled_tasks (runPendingTasks example_stripe queue_world)).
      st_id x = 1 \<or> st_id x = 2 \<or> st_id x = 3 \<longrightarrow> finished_at (clock queue_world) x"
    using batch by auto
  obtain a b c d where
    rows: "scheduled_tasks (runPendingTasks example_stripe queue_world) = [a, b, c, d]"
    using queue_swept by auto
  have ids: "st_id a = 1" "st_id b = 2" "st_id c = 3" "st_status d = ''pending''"
    using queue_swept unfolding rows by simp_all
  have "finished_at (clock queue_world) a" "finished_at (clock queue_world) b"
    "finished_at (clock queue_world) c" "\<not> finished_at (clock queue_world) d"
    using fin ids unfolding rows by (simp_all add: finished_at_def)
  then show ?thesis
    using queue_due queue_swept unfolding rows by simp
qed

subsection \<open>The smart archive\<close>

lemma schedule_archive_simps:
  "clients (schedule_archive i c v) = clients v"
  "specialists (schedule_archive i c v) = specialists v"
  "outbox (schedule_archive i c v) = outbox v"
  "clock (schedule_archive i c v) = clock v"
  by (simp_all add: schedule_archive_def)

lemma schedule_archive_tasks:
  "\<exists>t. scheduled_tasks (schedule_archive i c v) = scheduled_tasks v @ [t] \<and>
       st_client_id t = Some c \<and> scheduled_in_a_week i v t"
  by (simp add: schedule_archive_def scheduled_in_a_week_def)

lemma scheduled_in_a_week_cong: "clock v = clock w \<Longrightarrow> scheduled_in_a_week i v = scheduled_in_a_week i w"
  by (simp add: scheduled_in_a_week_def fun_eq_iff)

lemma fold_schedule:
  "clients (fold (\<lambda>c. schedule_archive i (cl_id c)) cs v) = clients v \<and>
   specialists (fold (\<lambda>c. schedule_archive i (cl_id c)) cs v) = specialists v \<and>
   outbox (fold (\<lambda>c. schedule_archive i (cl_id c)) cs v) = outbox v \<and>
   clock (fold (\<lambda>c. schedule_archive i (cl_id c)) cs v) = clock v \<and>
   (\<exists>news. scheduled_tasks (fold (\<lambda>c. schedule_archive i (cl_id c)) cs v) =
              scheduled_tasks v @ news \<and>
           map st_client_id news = map (\<lambda>c. Some (cl_id c)) cs \<and>
           list_all (scheduled_in_a_week i v) news)"
proof (induction cs arbitrary: v)
  case Nil
  then show ?case by simp
next
  case (Cons c cs)
  let ?v = "schedule_archive i (cl_id c) v"
  obtain t where t: "scheduled_tasks ?v = scheduled_tasks v @ [t]"
    "st_client_id t = Some (cl_id c)" "scheduled_in_a_week i v t"
    using schedule_archive_tasks [of i "cl_id c" v] by blast
  obtain news where news:
    "scheduled_tasks (fold (\<lambda>c. schedule_archive i (cl_id c)) cs ?v) = scheduled_tasks ?v @ news"
    "map st_client_id news = map (\<lambda>c. Some (cl_id c)) cs"
    "list_all (scheduled_in_a_week i ?v) news"
    using Cons.IH [of ?v] by blast
  have w: "scheduled_in_a_week i ?v = scheduled_in_a_week i v"
    by (rule scheduled_in_a_week_cong) (simp add: schedule_archive_simps)
  have "scheduled_tasks (fold (\<lambda>c. schedule_archive i (cl_id c)) (c # cs) v) =
          scheduled_tasks v @ (t # news) \<and>
        map st_client_id (t # news) = map (\<lambda>c. Some (cl_id c)) (c # cs) \<and>
        list_all (scheduled_in_a_week i v) (t # news)"
    using t news by (simp add: w)
  then have "\<exists>news. scheduled_tasks (fold (\<lambda>c. schedule_archive i (cl_id c)) (c # cs) v) =
              scheduled_tasks v @ news \<and>
           map st_client_id news = map (\<lambda>c. Some (cl_id c)) (c # cs) \<and>
           list_all (scheduled_in_a_week i v) news"
    by (rule exI)
  then show ?case
    using Cons.IH [of ?v] by (simp add: schedule_archive_simps)
qed

lemma fold_schedule_frame:
  "clients (fold (\<lambda>c. schedule_archive i (cl_id c)) cs v) = clients v"
  "outbox (fold (\<lambda>c. schedule_archive i (cl_id c)) cs v) = outbox v"
  using fold_schedule [of i cs v] by simp_all

lemma fold_schedule_tasks:
  "\<exists>news. scheduled_tasks (fold (\<lambda>c. schedule_archive i (cl_id c)) cs v) =
              scheduled_tasks v @ news \<and>
           map st_client_id news = map (\<lambda>c. Some (cl_id c)) cs \<and>
           list_all (scheduled_in_a_week i v) news"
  using fold_schedule [of i cs v] by (elim conjE)

lemma archive_candidates_sorted:
  "sorted (map last_activity (archive_candidates i w)) \<and>
   set (archive_candidates i w) = {c \<in> set (clients w). archive_eligible i w c} \<and>
   length (archive_candidates i w) = length (filter (archive_eligible i w) (clients w))"
proof -
  have e: "(\<lambda>c. cl_specialist_id c = i \<and> cl_is_active c \<and>
                 (case last_activity c of None \<Rightarrow> True | Some t \<Rightarrow> t < clock w - days 90)) =
           archive_eligible i w"
    by (simp add: archive_eligible_def fun_eq_iff)
  show ?thesis
    unfolding archive_candidates_def e by (simp add: sorted_sort_key)
qed


lemma restricted_specialist_found:
  assumes "find (\<lambda>s. sp_id s = i \<and> is_restricted s) (specialists w) = Some s"
  shows "\<exists>s'. find_specialist i w = Some s'"
proof (cases "find_specialist i w")
  case None
  then have "\<not> (\<exists>x. x \<in> set (specialists w) \<and> sp_id x = i)"
    by (simp add: find_specialist_def find_None_iff)
  moreover have "s \<in> set (specialists w) \<and> sp_id s = i"
    using assms by (auto simp: find_Some_iff)
  ultimately show ?thesis
    by blast
next
  case (Some s')
  then show ?thesis
    by simp
qed

lemma smartArchiveClients_over:
  assumes "find (\<lambda>s. sp_id s = i \<and> is_restricted s) (specialists w) = Some s"
    and "map_option client_limit (tier_of s w) = Some l"
    and "l \<noteq> - 1"
    and "l < active_clients i w"
    and "find_specialist i w = Some s'"
  shows "smartArchiveClients i w =
           (if take (nat (active_clients i w - l)) (archive_candidates i w) = [] then w
            else fold (\<lambda>c. schedule_archive i (cl_id c))
                   (take (nat (active_clients i w - l)) (archive_candidates i w))
                   (sendEmail \<lparr>email_to = sp_email s', email_template = ''pending-archive''\<rparr> w))"
proof -
  obtain bt where bt: "tier_of s w = Some bt" "client_limit bt = l"
    using assms(2) by auto
  show ?thesis
    using assms(1,3,4,5) bt
    by (simp add: smartArchiveClients_def Let_def to_number_def notifyPendingArchive_def)
qed


text \<open>
  C6, as amended. For a restricted account whose number of active clients exceeds its
  finite tier limit, the smart archive selects among the account's active clients that
  were never active or were last active more than ninety days ago: it takes them in the
  order of their last activity, oldest first and null first, and selects the first ones,
  as many as the overage (active count minus limit) or all of them when they are fewer.
  No client is archived by the operation itself: for each selected client, in that order,
  one pending \<open>archive_client\<close> task is scheduled for seven days later. The account
  holder is sent one notification when at least one client is selected, and none
  otherwise.
\<close>

theorem smartArchiveClients_over_capacity:
  assumes "find (\<lambda>s. sp_id s = specialistId \<and> is_restricted s) (specialists w) = Some s"
    and "map_option client_limit (tier_of s w) = Some l"
    and "l \<noteq> - 1"
    and "l < active_clients specialistId w"
  shows "\<exists>sel rest news s'.
      sorted (map last_activity (sel @ rest)) \<and>
      set (sel @ rest) = {c \<in> set (clients w). archive_eligible specialistId w c} \<and>
      length (sel @ rest) = length (filter (archive_eligible specialistId w) (clients w)) \<and>
      length sel = min (nat (active_clients specialistId w - l)) (length (sel @ rest)) \<and>
      clients (smartArchiveClients specialistId w) = clients w \<and>
      scheduled_tasks (smartArchiveClients specialistId w) = scheduled_tasks w @ news \<and>
      map st_client_id news = map (\<lambda>c. Some (cl_id c)) sel \<and>
      list_all (scheduled_in_a_week specialistId w) news \<and>
      find_specialist specialistId w = Some s' \<and>
      outbox (smartArchiveClients specialistId w) =
        outbox w @ (if sel = [] then []
                    else [\<lparr>email_to = sp_email s', email_template = ''pending-archive''\<rparr>])"
proof -
  let ?n = "nat (active_clients specialistId w - l)"
  let ?cands = "archive_candidates specialistId w"
  let ?sel = "take ?n ?cands"
  let ?rest = "drop ?n ?cands"
  obtain s' where s': "find_specialist specialistId w = Some s'"
    using restricted_specialist_found [OF assms(1)] by (elim exE)
  let ?m = "\<lparr>email_to = sp_email s', email_template = ''pending-archive''\<rparr>"
  have run: "smartArchiveClients specialistId w =
               (if ?sel = [] then w
                else fold (\<lambda>c. schedule_archive specialistId (cl_id c)) ?sel (sendEmail ?m w))"
    by (rule smartArchiveClients_over [OF assms s'])
  have cands: "sorted (map last_activity (?sel @ ?rest))"
    "set (?sel @ ?rest) = {c \<in> set (clients w). archive_eligible specialistId w c}"
    "length (?sel @ ?rest) = length (filter (archive_eligible specialistId w) (clients w))"
    using archive_candidates_sorted [of specialistId w] by simp_all
  have len: "length ?sel = min ?n (length (?sel @ ?rest))"
    by simp
  have "\<exists>news.
      clients (smartArchiveClients specialistId w) = clients w \<and>
      scheduled_tasks (smartArchiveClients specialistId w) = scheduled_tasks w @ news \<and>
      map st_client_id news = map (\<lambda>c. Some (cl_id c)) ?sel \<and>
      list_all (scheduled_in_a_week specialistId w) news \<and>
      outbox (smartArchiveClients specialistId w) = outbox w @ (if ?sel = [] then [] else [?m])"
  proof (cases "?sel = []")
    case True
    then have same: "smartArchiveClients specialistId w = w"
      using run by simp
    have nil: "clients (smartArchiveClients specialistId w) = clients w \<and>
      scheduled_tasks (smartArchiveClients specialistId w) = scheduled_tasks w @ [] \<and>
      map st_client_id [] = map (\<lambda>c. Some (cl_id c)) ?sel \<and>
      list_all (scheduled_in_a_week specialistId w) [] \<and>
      outbox (smartArchiveClients specialistId w) = outbox w @ (if ?sel = [] then [] else [?m])"
      unfolding same True by simp
    show ?thesis
      by (rule exI [where x = "[]"]) (rule nil)
  next
    case False
    let ?v = "sendEmail ?m w"
    have r: "smartArchiveClients specialistId w =
               fold (\<lambda>c. schedule_archive specialistId (cl_id c)) ?sel ?v"
      using run False by simp
    have k: "scheduled_in_a_week specialistId ?v = scheduled_in_a_week specialistId w"
      by (rule scheduled_in_a_week_cong) (simp add: sendEmail_simps)
    obtain news where news:
      "scheduled_tasks (fold (\<lambda>c. schedule_archive specialistId (cl_id c)) ?sel ?v) =
         scheduled_tasks ?v @ news"
      "map st_client_id news = map (\<lambda>c. Some (cl_id c)) ?sel"
      "list_all (scheduled_in_a_week specialistId ?v) news"
      using fold_schedule_tasks [of specialistId ?sel ?v]
      by (elim exE conjE) (rule that; assumption)
    have c: "clients (smartArchiveClients specialistId w) = clients w"
      unfolding r by (simp add: fold_schedule_frame sendEmail_simps)
    have o: "outbox (smartArchiveClients specialistId w) =
               outbox w @ (if ?sel = [] then [] else [?m])"
      unfolding r using False by (simp add: fold_schedule_frame sendEmail_simps)
    have t: "scheduled_tasks (smartArchiveClients specialistId w) = scheduled_tasks w @ news"
      unfolding r news(1) by (simp add: sendEmail_simps)
    have q: "list_all (scheduled_in_a_week specialistId w) news"
      using news(3) unfolding k .
    show ?thesis
      by (rule exI [where x = news])
        (rule conjI [OF c conjI [OF t conjI [OF news(2) conjI [OF q o]]]])
  qed
  then obtain news where news:
      "clients (smartArchiveClients specialistId w) = clients w"
      "scheduled_tasks (smartArchiveClients specialistId w) = scheduled_tasks w @ news"
      "map st_client_id news = map (\<lambda>c. Some (cl_id c)) ?sel"
      "list_all (scheduled_in_a_week specialistId w) news"
      "outbox (smartArchiveClients specialistId w) = outbox w @ (if ?sel = [] then [] else [?m])"
    by (elim exE conjE) (rule that; assumption)
  show ?thesis
    by (rule exI [where x = ?sel], rule exI [where x = ?rest], rule exI [where x = news],
        rule exI [where x = s'])
      (rule conjI [OF cands(1) conjI [OF cands(2) conjI [OF cands(3) conjI [OF len
         conjI [OF news(1) conjI [OF news(2) conjI [OF news(3) conjI [OF news(4)
         conjI [OF s' news(5)]]]]]]]]])
qed


lemma stale_world_facts:
  "find (\<lambda>s. sp_id s = 7 \<and> is_restricted s) (specialists stale_world) =
     Some ((example_specialist ''starter'')
             \<lparr>client_count := 12, is_restricted := True,
              restriction_reason := Some ''client_limit_exceeded'',
              restricted_at := Some 99990000\<rparr>)"
  "map_option client_limit
     (tier_of ((example_specialist ''starter'')
                 \<lparr>client_count := 12, is_restricted := True,
                  restriction_reason := Some ''client_limit_exceeded'',
                  restricted_at := Some 99990000\<rparr>) stale_world) = Some 10"
  "active_clients 7 stale_world = 12"
  by code_simp+

lemma stale_world_archive:
  "map (\<lambda>t. (st_client_id t, execute_at t - clock stale_world, st_status t))
     (scheduled_tasks (smartArchiveClients 7 stale_world)) =
     [(Some 11, 604800, ''pending''), (Some 12, 604800, ''pending'')]"
  "map email_template (outbox (smartArchiveClients 7 stale_world)) = [''pending-archive'']"
  "map cl_is_active (clients (smartArchiveClients 7 stale_world)) = replicate 12 True"
  by code_simp+

theorem smartArchiveClients_over_capacity_witness:
  "find (\<lambda>s. sp_id s = 7 \<and> is_restricted s) (specialists stale_world) =
     Some ((example_specialist ''starter'')
             \<lparr>client_count := 12, is_restricted := True,
              restriction_reason := Some ''client_limit_exceeded'',
              restricted_at := Some 99990000\<rparr>) \<and>
   active_clients 7 stale_world = 12 \<and>
   map (\<lambda>t. (st_client_id t, execute_at t - clock stale_world, st_status t))
     (scheduled_tasks (smartArchiveClients 7 stale_world)) =
     [(Some 11, 604800, ''pending''), (Some 12, 604800, ''pending'')] \<and>
   map email_template (outbox (smartArchiveClients 7 stale_world)) = [''pending-archive''] \<and>
   map cl_is_active (clients (smartArchiveClients 7 stale_world)) = replicate 12 True"
proof -
  have h3: "(10 :: int) \<noteq> - 1"
    by simp
  have h4: "10 < active_clients 7 stale_world"
    by (simp add: stale_world_facts(3))
  have "clients (smartArchiveClients 7 stale_world) = clients stale_world"
    using smartArchiveClients_over_capacity [OF stale_world_facts(1,2) h3 h4]
    by (elim exE conjE)
  then show ?thesis
    using stale_world_facts(1,3) stale_world_archive by simp
qed

text \<open>
  Eleven clients on the starter tier, all active a quarter of an hour ago: the account is
  restricted and one client over its limit, and the smart archive selects nobody, sends
  no notification and schedules nothing.
\<close>

theorem smartArchiveClients_recent_counterexample:
  "map_option is_restricted
     (find_specialist 7 (restricted_world ''starter'' (replicate 11 (Some 99999000)))) = Some True \<and>
   active_clients 7 (restricted_world ''starter'' (replicate 11 (Some 99999000))) = 11 \<and>
   outbox (smartArchiveClients 7 (restricted_world ''starter'' (replicate 11 (Some 99999000)))) = [] \<and>
   scheduled_tasks
     (smartArchiveClients 7 (restricted_world ''starter'' (replicate 11 (Some 99999000)))) = []"
  by code_simp

subsection \<open>The billing middleware in front of the client routes\<close>

lemma mount_api_clients: "mount_path ''/api/clients'' ''/api/clients'' = Some ''/''"
  by (simp add: mount_path_def)

text \<open>
  Every \<open>POST /api/clients\<close> ends in the \<open>catch\<close> of the limit middleware, and every
  archive request that gets past its checks ends in the \<open>catch\<close> of the route, after the
  \<open>UPDATE\<close> has been made.
\<close>

lemma create_always_500:
  "api_clients ''POST'' ''/api/clients'' userId w =
     (w, Json 500 (JObj [(''error'', JStr ''Internal server error'')]))"
  by (simp add: api_clients_def mount_api_clients checkClientLimits_middleware_def
      checkClientLimits_throws)

lemma archive_route_500:
  assumes "enforceRestrictions
             \<lparr>req_method = ''POST'', req_path = ''/archive-clients'', req_user_id = userId\<rparr> w = Next"
  shows "archive_clients_route userId \<lparr>body_clientIds = Some ids, body_reason = rsn\<rparr> w =
           (fst (update_clients (\<lambda>c. cl_id c \<in> set ids \<and> cl_specialist_id c = userId)
                   (archive_row (case rsn of None \<Rightarrow> Some ''manual_archive'' | Some r \<Rightarrow> r)
                      (clock w)) w),
            Json 500 (JObj [(''error'', JStr ''Failed to archive clients'')]))"
  unfolding archive_clients_route_def assms
  by (simp add: Let_def checkClientLimits_throws split: prod.splits)

lemma archive_count_split:
  "length (filter (\<lambda>c. cl_specialist_id c = u \<and> cl_is_active c)
             (map (\<lambda>c. if cl_id c = k \<and> cl_specialist_id c = u then archive_row r t c else c) xs)) +
   length (filter (\<lambda>c. cl_specialist_id c = u \<and> cl_is_active c) (filter (\<lambda>c. cl_id c = k) xs)) =
   length (filter (\<lambda>c. cl_specialist_id c = u \<and> cl_is_active c) xs)"
  by (induction xs) (auto simp: archive_row_def)

lemma archive_one_count:
  assumes "filter (\<lambda>c. cl_id c = k) (clients w) = [c]"
    and "cl_specialist_id c = u" and "cl_is_active c"
  shows "active_clients u (fst (update_clients (\<lambda>c. cl_id c \<in> set [k] \<and> cl_specialist_id c = u)
                                  (archive_row r t) w)) =
         active_clients u w - 1"
proof -
  have "length (filter (\<lambda>c. cl_specialist_id c = u \<and> cl_is_active c)
             (map (\<lambda>c. if cl_id c = k \<and> cl_specialist_id c = u then archive_row r t c else c)
                (clients w))) + 1 =
        length (filter (\<lambda>c. cl_specialist_id c = u \<and> cl_is_active c) (clients w))"
    using archive_count_split [of u k r t "clients w"] assms by simp
  then show ?thesis
    by (simp add: active_clients_def update_clients_clients)
qed


lemma full_starter_facts:
  "billing_tier_id ((example_specialist ''starter'')\<lparr>client_count := 10\<rparr>) = Some ''starter''"
  "filter (\<lambda>c. cl_id c = 3) (clients (example_world ''starter'' (replicate 10 None))) =
     [example_client 3 None]"
  "cl_specialist_id (example_client 3 None) = 7"
  "cl_is_active (example_client 3 None)"
  by code_simp+

text \<open>
  C3. An account on the starter tier (limit 10) has exactly ten active clients. Its
  \<open>POST /api/clients\<close> is not answered with 403 and an \<open>upgrade_url\<close>: the limit check
  throws on the column \<open>bt.tier_id\<close>, and the middleware answers with status 500 and a
  body without \<open>upgrade_url\<close>. Archiving client 3 through \<open>POST /archive-clients\<close>
  leaves nine active clients but is answered with 500 as well, and the next
  \<open>POST /api/clients\<close> does not reach the client routes: it is answered with 500 again.
  Before all that, server.js throws while it loads.
\<close>

theorem starter_limit_scenario_fails:
  "active_clients 7 (example_world ''starter'' (replicate 10 None)) = 10 \<and>
   map_option client_limit
     (tier_of ((example_specialist ''starter'')\<lparr>client_count := 10\<rparr>)
        (example_world ''starter'' (replicate 10 None))) = Some 10 \<and>
   api_clients ''POST'' ''/api/clients'' 7 (example_world ''starter'' (replicate 10 None)) =
     (example_world ''starter'' (replicate 10 None),
      Json 500 (JObj [(''error'', JStr ''Internal server error'')])) \<and>
   snd (archive_clients_route 7 \<lparr>body_clientIds = Some [3], body_reason = None\<rparr>
          (example_world ''starter'' (replicate 10 None))) =
     Json 500 (JObj [(''error'', JStr ''Failed to archive clients'')]) \<and>
   active_clients 7
     (fst (archive_clients_route 7 \<lparr>body_clientIds = Some [3], body_reason = None\<rparr>
             (example_world ''starter'' (replicate 10 None)))) = 9 \<and>
   snd (api_clients ''POST'' ''/api/clients'' 7
     (fst (archive_clients_route 7 \<lparr>body_clientIds = Some [3], body_reason = None\<rparr>
             (example_world ''starter'' (replicate 10 None))))) =
     Json 500 (JObj [(''error'', JStr ''Internal server error'')]) \<and>
   load_server =
     Inl (Error ''Route.get() requires a callback function but got a [object Undefined]'')"
proof -
  let ?w = "example_world ''starter'' (replicate 10 None)"
  let ?body = "\<lparr>body_clientIds = Some [3], body_reason = None\<rparr>"
  let ?after = "fst (update_clients (\<lambda>c. cl_id c \<in> set [3] \<and> cl_specialist_id c = 7)
                       (archive_row (Some ''manual_archive'') (clock ?w)) ?w)"
  have pass: "enforceRestrictions
      \<lparr>req_method = ''POST'', req_path = ''/archive-clients'', req_user_id = 7\<rparr> ?w = Next"
    by (simp add: enforceRestrictions_def example_world_specialist example_specialist_def)
  have route: "archive_clients_route 7 ?body ?w =
      (?after, Json 500 (JObj [(''error'', JStr ''Failed to archive clients'')]))"
    using archive_route_500 [OF pass, of "[3]" None] by (simp only: option.case)
  have nine: "active_clients 7 ?after = active_clients 7 ?w - 1"
    by (rule archive_one_count [OF full_starter_facts(2,3,4)])
  have c1: "active_clients 7 ?w = 10"
    by (simp add: example_world_active)
  have c2: "map_option client_limit
              (tier_of ((example_specialist ''starter'')\<lparr>client_count := 10\<rparr>) ?w) = Some 10"
    by (rule example_world_limit)
  have c3: "api_clients ''POST'' ''/api/clients'' 7 ?w =
              (?w, Json 500 (JObj [(''error'', JStr ''Internal server error'')]))"
    by (rule create_always_500)
  have c4: "snd (archive_clients_route 7 ?body ?w) =
              Json 500 (JObj [(''error'', JStr ''Failed to archive clients'')])"
    unfolding route by (rule snd_conv)
  have c5: "active_clients 7 (fst (archive_clients_route 7 ?body ?w)) = 9"
    unfolding route fst_conv nine c1 by simp
  have c6: "snd (api_clients ''POST'' ''/api/clients'' 7 (fst (archive_clients_route 7 ?body ?w))) =
              Json 500 (JObj [(''error'', JStr ''Internal server error'')])"
    unfolding create_always_500 by (rule snd_conv)
  have c7: "load_server =
     Inl (Error ''Route.get() requires a callback function but got a [object Undefined]'')"
    by (simp add: load_server_def exported_getTiers_def)
  show ?thesis
    by (rule conjI [OF c1 conjI [OF c2 conjI [OF c3 conjI [OF c4 conjI [OF c5
          conjI [OF c6 c7]]]]]])
qed

end
